theory Spec2Isabelle
  imports Complex_Main
begin

section \<open>NumPy arrays of dimension at most two\<close>

text \<open>
  The notebook \<^verbatim>\<open>Feed Forward Neural Network with Linear Algebra\<close> computes with NumPy
  arrays of \<^verbatim>\<open>float64\<close>. The arrays are modelled by their shape and their entries:
  a Python float or zero-dimensional array is a \<open>Scalar\<close>, a one-dimensional array a
  \<open>Vec\<close>, a two-dimensional array a \<open>Mat\<close>, the list of its rows. Entries are real
  numbers: rounding, overflow to \<^verbatim>\<open>inf\<close> and \<^verbatim>\<open>nan\<close> are not part of the model.
  A two-dimensional array with no row is \<open>Mat []\<close>; its number of columns is read as 0.
\<close>

datatype error = ValueError | IndexError | KeyError | NameError | TypeError
  | AxisError | ZeroDivisionError

datatype ndarray = Scalar real | Vec "real list" | Mat "real list list"

definition andthen :: "error + 'a \<Rightarrow> ('a \<Rightarrow> error + 'b) \<Rightarrow> error + 'b" where
  "andthen m f = (case m of Inl e \<Rightarrow> Inl e | Inr x \<Rightarrow> f x)"

definition nrows :: "real list list \<Rightarrow> nat" where
  "nrows A = length A"

definition ncols :: "real list list \<Rightarrow> nat" where
  "ncols A = (case A of [] \<Rightarrow> 0 | r # _ \<Rightarrow> length r)"

text \<open>The shape of an array, \<^verbatim>\<open>a.shape\<close>.\<close>

fun shape :: "ndarray \<Rightarrow> nat list" where
  "shape (Scalar x) = []"
| "shape (Vec v) = [length v]"
| "shape (Mat A) = [nrows A, ncols A]"

text \<open>\<^verbatim>\<open>len(a)\<close>: the size of the first axis; a scalar has no length.\<close>

fun len :: "ndarray \<Rightarrow> error + nat" where
  "len (Scalar x) = Inl TypeError"
| "len (Vec v) = Inr (length v)"
| "len (Mat A) = Inr (nrows A)"

text \<open>The columns of a two-dimensional array: the rows of \<^verbatim>\<open>a.T\<close>.\<close>

definition columns :: "real list list \<Rightarrow> real list list" where
  "columns A = map (\<lambda>j. map (\<lambda>row. row ! j) A) [0..<ncols A]"

fun np_T :: "ndarray \<Rightarrow> ndarray" where
  "np_T (Scalar x) = Scalar x"
| "np_T (Vec v) = Vec v"
| "np_T (Mat A) = Mat (columns A)"

text \<open>Element-wise functions: \<^verbatim>\<open>np.tanh\<close>, \<^verbatim>\<open>np.exp\<close>, \<^verbatim>\<open>np.log\<close>, \<^verbatim>\<open>np.square\<close>,
  \<^verbatim>\<open>np.power(a, 2)\<close>.\<close>

fun np_map :: "(real \<Rightarrow> real) \<Rightarrow> ndarray \<Rightarrow> ndarray" where
  "np_map f (Scalar x) = Scalar (f x)"
| "np_map f (Vec v) = Vec (map f v)"
| "np_map f (Mat A) = Mat (map (map f) A)"

definition np_tanh :: "ndarray \<Rightarrow> ndarray" where
  "np_tanh a = np_map tanh a"

definition np_exp :: "ndarray \<Rightarrow> ndarray" where
  "np_exp a = np_map exp a"

definition np_log :: "ndarray \<Rightarrow> ndarray" where
  "np_log a = np_map ln a"

definition np_square :: "ndarray \<Rightarrow> ndarray" where
  "np_square a = np_map (\<lambda>x. x * x) a"

definition np_power :: "ndarray \<Rightarrow> nat \<Rightarrow> ndarray" where
  "np_power a n = np_map (\<lambda>x. x ^ n) a"

definition np_neg :: "ndarray \<Rightarrow> ndarray" where
  "np_neg a = np_map uminus a"

text \<open>
  Broadcasting. Two axes are compatible when their sizes are equal or one of them is 1;
  the axis of size 1 is repeated. A one-dimensional operand is aligned with the last axis
  of a two-dimensional one, a scalar with every entry. Incompatible shapes raise
  \<^verbatim>\<open>ValueError\<close>.
\<close>

definition compatible :: "nat \<Rightarrow> nat \<Rightarrow> bool" where
  "compatible m n \<longleftrightarrow> m = n \<or> m = 1 \<or> n = 1"

definition bzip :: "('a \<Rightarrow> 'b \<Rightarrow> 'c) \<Rightarrow> 'a list \<Rightarrow> 'b list \<Rightarrow> 'c list" where
  "bzip f xs ys =
     (if length xs = length ys then map2 f xs ys
      else if length xs = 1 then map (f (hd xs)) ys
      else map (\<lambda>x. f x (hd ys)) xs)"

fun broadcast :: "(real \<Rightarrow> real \<Rightarrow> real) \<Rightarrow> ndarray \<Rightarrow> ndarray \<Rightarrow> error + ndarray" where
  "broadcast f (Scalar x) b = Inr (np_map (f x) b)"
| "broadcast f (Vec u) (Scalar y) = Inr (Vec (map (\<lambda>x. f x y) u))"
| "broadcast f (Mat A) (Scalar y) = Inr (Mat (map (map (\<lambda>x. f x y)) A))"
| "broadcast f (Vec u) (Vec v) =
     (if compatible (length u) (length v) then Inr (Vec (bzip f u v)) else Inl ValueError)"
| "broadcast f (Vec u) (Mat B) =
     (if compatible (length u) (ncols B) then Inr (Mat (bzip (bzip f) [u] B))
      else Inl ValueError)"
| "broadcast f (Mat A) (Vec v) =
     (if compatible (ncols A) (length v) then Inr (Mat (bzip (bzip f) A [v]))
      else Inl ValueError)"
| "broadcast f (Mat A) (Mat B) =
     (if compatible (nrows A) (nrows B) \<and> compatible (ncols A) (ncols B)
      then Inr (Mat (bzip (bzip f) A B)) else Inl ValueError)"

definition np_add :: "ndarray \<Rightarrow> ndarray \<Rightarrow> error + ndarray" where
  "np_add a b = broadcast (+) a b"

definition np_sub :: "ndarray \<Rightarrow> ndarray \<Rightarrow> error + ndarray" where
  "np_sub a b = broadcast (-) a b"

definition np_mul :: "ndarray \<Rightarrow> ndarray \<Rightarrow> error + ndarray" where
  "np_mul a b = broadcast (*) a b"

definition np_div :: "ndarray \<Rightarrow> ndarray \<Rightarrow> error + ndarray" where
  "np_div a b = broadcast (/) a b"

text \<open>
  The in-place operator \<^verbatim>\<open>a += b\<close> writes the broadcast sum into the array \<open>a\<close>, so the
  sum must have the shape of \<open>a\<close>; otherwise NumPy raises \<^verbatim>\<open>ValueError\<close>.
\<close>

definition np_iadd :: "ndarray \<Rightarrow> ndarray \<Rightarrow> error + ndarray" where
  "np_iadd a b =
     andthen (np_add a b) (\<lambda>r. if shape r = shape a then Inr r else Inl ValueError)"

text \<open>\<^verbatim>\<open>a.dot(b)\<close> and \<^verbatim>\<open>np.dot(a, b)\<close>.\<close>

definition vdot :: "real list \<Rightarrow> real list \<Rightarrow> real" where
  "vdot u v = sum_list (map2 (*) u v)"

fun np_dot :: "ndarray \<Rightarrow> ndarray \<Rightarrow> error + ndarray" where
  "np_dot (Scalar x) b = Inr (np_map ((*) x) b)"
| "np_dot (Vec u) (Scalar y) = Inr (Vec (map (\<lambda>x. x * y) u))"
| "np_dot (Mat A) (Scalar y) = Inr (Mat (map (map (\<lambda>x. x * y)) A))"
| "np_dot (Vec u) (Vec v) =
     (if length u = length v then Inr (Scalar (vdot u v)) else Inl ValueError)"
| "np_dot (Vec u) (Mat B) =
     (if length u = nrows B then Inr (Vec (map (vdot u) (columns B))) else Inl ValueError)"
| "np_dot (Mat A) (Vec v) =
     (if ncols A = length v then Inr (Vec (map (\<lambda>row. vdot row v) A)) else Inl ValueError)"
| "np_dot (Mat A) (Mat B) =
     (if ncols A = nrows B then Inr (Mat (map (\<lambda>row. map (vdot row) (columns B)) A))
      else Inl ValueError)"

text \<open>\<^verbatim>\<open>np.sum(a)\<close>, \<^verbatim>\<open>np.sum(a, axis=1, keepdims=True)\<close>,
  \<^verbatim>\<open>np.sum(a, axis=0, keepdims=True)\<close> and \<^verbatim>\<open>np.sum(a, axis=0)\<close>.\<close>

fun np_sum :: "ndarray \<Rightarrow> real" where
  "np_sum (Scalar x) = x"
| "np_sum (Vec v) = sum_list v"
| "np_sum (Mat A) = sum_list (map sum_list A)"

fun np_sum_axis1_keepdims :: "ndarray \<Rightarrow> error + ndarray" where
  "np_sum_axis1_keepdims (Mat A) = Inr (Mat (map (\<lambda>row. [sum_list row]) A))"
| "np_sum_axis1_keepdims a = Inl AxisError"

fun np_sum_axis0_keepdims :: "ndarray \<Rightarrow> error + ndarray" where
  "np_sum_axis0_keepdims (Mat A) = Inr (Mat [map sum_list (columns A)])"
| "np_sum_axis0_keepdims (Vec v) = Inr (Vec [sum_list v])"
| "np_sum_axis0_keepdims (Scalar x) = Inl AxisError"

fun np_sum_axis0 :: "ndarray \<Rightarrow> error + ndarray" where
  "np_sum_axis0 (Mat A) = Inr (Vec (map sum_list (columns A)))"
| "np_sum_axis0 (Vec v) = Inr (Scalar (sum_list v))"
| "np_sum_axis0 (Scalar x) = Inl AxisError"

text \<open>
  Index arrays. \<^verbatim>\<open>a[range(n), Y]\<close> pairs the row indices \<open>0, ..., n - 1\<close> with the
  entries of the integer array \<open>Y\<close>; the two index arrays are broadcast against each
  other (a mismatch raises \<^verbatim>\<open>IndexError\<close>), a negative index counts from the end, and
  an index out of bounds raises \<^verbatim>\<open>IndexError\<close>.
\<close>

definition norm_index :: "nat \<Rightarrow> int \<Rightarrow> error + nat" where
  "norm_index n i =
     (if 0 \<le> i \<and> i < int n then Inr (nat i)
      else if - int n \<le> i \<and> i < 0 then Inr (nat (int n + i))
      else Inl IndexError)"

fun norm_pairs :: "nat \<Rightarrow> nat \<Rightarrow> (int \<times> int) list \<Rightarrow> error + (nat \<times> nat) list" where
  "norm_pairs r c [] = Inr []"
| "norm_pairs r c ((i, j) # ps) =
     andthen (norm_index r i) (\<lambda>i'.
     andthen (norm_index c j) (\<lambda>j'.
     andthen (norm_pairs r c ps) (\<lambda>ps'. Inr ((i', j') # ps'))))"

definition index_pairs :: "real list list \<Rightarrow> nat \<Rightarrow> int list \<Rightarrow> error + (nat \<times> nat) list" where
  "index_pairs A n Y =
     (if compatible n (length Y)
      then norm_pairs (nrows A) (ncols A) (bzip Pair (map int [0..<n]) Y)
      else Inl IndexError)"

text \<open>\<^verbatim>\<open>a[range(n), Y]\<close> as a value: the one-dimensional array of the selected entries.\<close>

fun getitem_range :: "ndarray \<Rightarrow> nat \<Rightarrow> int list \<Rightarrow> error + ndarray" where
  "getitem_range (Mat A) n Y =
     andthen (index_pairs A n Y) (\<lambda>ps. Inr (Vec (map (\<lambda>(i, j). A ! i ! j) ps)))"
| "getitem_range a n Y = Inl IndexError"

text \<open>
  \<^verbatim>\<open>a[range(n), Y] -= 1\<close> reads the selected entries, subtracts 1 from each and writes
  the results back in order, so an entry selected twice is lowered once.
\<close>

definition setitem :: "real list list \<Rightarrow> (nat \<times> nat) \<times> real \<Rightarrow> real list list" where
  "setitem A p = (case p of ((i, j), x) \<Rightarrow> A[i := (A ! i)[j := x]])"

fun isub_range :: "ndarray \<Rightarrow> nat \<Rightarrow> int list \<Rightarrow> real \<Rightarrow> error + ndarray" where
  "isub_range (Mat A) n Y d =
     andthen (index_pairs A n Y) (\<lambda>ps.
       Inr (Mat (foldl setitem A (map (\<lambda>(i, j). ((i, j), A ! i ! j - d)) ps))))"
| "isub_range a n Y d = Inl IndexError"

section \<open>The activation function and the cost function\<close>

text \<open>
  \<^verbatim>\<open>
  def softmax(values):
      exp_scores = np.exp(values)
      return exp_scores / np.sum(exp_scores, axis=1, keepdims=True)
  \<close>
\<close>

definition softmax :: "ndarray \<Rightarrow> error + ndarray" where
  "softmax values =
     (let exp_scores = np_exp values in
      andthen (np_sum_axis1_keepdims exp_scores) (\<lambda>totals. np_div exp_scores totals))"

text \<open>
  A model is a dictionary from the keys \<^verbatim>\<open>'HW'\<close>, \<^verbatim>\<open>'HB'\<close>, \<^verbatim>\<open>'OW'\<close>, \<^verbatim>\<open>'OB'\<close> to
  arrays. Subscripting a dictionary with a missing key raises \<^verbatim>\<open>KeyError\<close>.
\<close>

type_synonym model_dict = "string \<rightharpoonup> ndarray"

definition getitem :: "(string \<rightharpoonup> 'a) \<Rightarrow> string \<Rightarrow> error + 'a" where
  "getitem d k = (case d k of None \<Rightarrow> Inl KeyError | Some v \<Rightarrow> Inr v)"

text \<open>
  \<^verbatim>\<open>predict\<close> comes from the course's \<^verbatim>\<open>intro_utils\<close> module (\<^verbatim>\<open>from intro_utils import *\<close>),
  which is not part of the notebook; \<open>cross_entropy\<close> takes it as a parameter. Its
  argument \<^verbatim>\<open>get_probs=True\<close> is fixed.
  \<^verbatim>\<open>
  def cross_entropy(model, X, Y, regularization):
      hidden_weights, output_weights = model['HW'], model['OW']
      probs = predict(model, X, get_probs=True)
      num_examples = len(Y)
      corect_logprobs = -np.log(probs[range(num_examples), Y])
      data_loss = np.sum(corect_logprobs)
      data_loss += (regularization / 2) * (np.sum(np.square(hidden_weights))
                                           + np.sum(np.square(output_weights)))
      return 1. / num_examples * data_loss
  \<close>
\<close>

type_synonym predictor = "model_dict \<Rightarrow> ndarray \<Rightarrow> error + ndarray"

definition cross_entropy ::
  "predictor \<Rightarrow> model_dict \<Rightarrow> ndarray \<Rightarrow> int list \<Rightarrow> real \<Rightarrow> error + real" where
  "cross_entropy predict model X Y regularization =
     andthen (getitem model ''HW'') (\<lambda>hidden_weights.
     andthen (getitem model ''OW'') (\<lambda>output_weights.
     andthen (predict model X) (\<lambda>probs.
     let num_examples = length Y in
     andthen (getitem_range probs num_examples Y) (\<lambda>selected.
     let corect_logprobs = np_neg (np_log selected);
         data_loss = np_sum corect_logprobs;
         data_loss = data_loss + (regularization / 2) *
           (np_sum (np_square hidden_weights) + np_sum (np_square output_weights))
     in if num_examples = 0 then Inl ZeroDivisionError
        else Inr (1 / real num_examples * data_loss)))))"

section \<open>The local variables of \<^verbatim>\<open>build_model\<close>\<close>

text \<open>
  A Python variable holds a reference to an array object, and \<^verbatim>\<open>+=\<close> and \<^verbatim>\<open>-=\<close> on an
  array change the object itself. The state therefore has an environment from the array
  variables of \<^verbatim>\<open>build_model\<close> to object identities and a heap from identities to
  arrays; \<open>fresh\<close> is the next unused identity. The dictionary \<^verbatim>\<open>model\<close> holds
  references, and the two loss lists hold floats.
\<close>

datatype var = hidden_weights | hidden_bias | output_weights | output_bias
  | hidden_values | hidden_activations | output_values | probs
  | output_delta | output_weights_delta | output_bias_delta
  | hidden_delta | hidden_weights_delta | hidden_bias_delta

record state =
  env :: "var \<rightharpoonup> nat"
  heap :: "nat \<rightharpoonup> ndarray"
  fresh :: nat
  model :: "string \<rightharpoonup> nat"
  test_loss :: "real list"
  train_loss :: "real list"

text \<open>Reading a variable; a local variable read before its assignment raises
  \<^verbatim>\<open>UnboundLocalError\<close>, a subclass of \<^verbatim>\<open>NameError\<close>.\<close>

definition lookup :: "state \<Rightarrow> var \<Rightarrow> error + ndarray" where
  "lookup s x =
     (case env s x of None \<Rightarrow> Inl NameError
      | Some a \<Rightarrow> (case heap s a of None \<Rightarrow> Inl NameError | Some v \<Rightarrow> Inr v))"

text \<open>\<^verbatim>\<open>x = <expression>\<close>: the expression built a new array, and \<open>x\<close> now refers to it.\<close>

definition assign :: "var \<Rightarrow> ndarray \<Rightarrow> state \<Rightarrow> state" where
  "assign x v s =
     s\<lparr>env := (env s)(x \<mapsto> fresh s), heap := (heap s)(fresh s \<mapsto> v), fresh := Suc (fresh s)\<rparr>"

text \<open>\<^verbatim>\<open>x = y\<close>: \<open>x\<close> refers to the object \<open>y\<close> refers to; nothing is copied.\<close>

definition assign_var :: "var \<Rightarrow> var \<Rightarrow> state \<Rightarrow> error + state" where
  "assign_var x y s =
     (case env s y of None \<Rightarrow> Inl NameError | Some a \<Rightarrow> Inr (s\<lparr>env := (env s)(x \<mapsto> a)\<rparr>))"

text \<open>Writing into the object \<open>x\<close> refers to.\<close>

definition write_back :: "var \<Rightarrow> ndarray \<Rightarrow> state \<Rightarrow> error + state" where
  "write_back x v s =
     (case env s x of None \<Rightarrow> Inl NameError | Some a \<Rightarrow> Inr (s\<lparr>heap := (heap s)(a \<mapsto> v)\<rparr>))"

text \<open>\<^verbatim>\<open>x += <expression>\<close> on an array variable.\<close>

definition iadd_var :: "var \<Rightarrow> (state \<Rightarrow> error + ndarray) \<Rightarrow> state \<Rightarrow> error + state" where
  "iadd_var x rhs s =
     andthen (lookup s x) (\<lambda>a.
     andthen (rhs s) (\<lambda>b.
     andthen (np_iadd a b) (\<lambda>r. write_back x r s)))"

section \<open>One epoch of the training loop\<close>

text \<open>
  \<^verbatim>\<open>
  hidden_values = X_train.dot(hidden_weights) + hidden_bias
  hidden_activations = np.tanh(hidden_values)
  output_values = hidden_activations.dot(output_weights) + output_bias
  probs = softmax(output_values)
  \<close>
\<close>

definition forward_propagation :: "ndarray \<Rightarrow> state \<Rightarrow> error + state" where
  "forward_propagation X_train s =
     andthen (lookup s hidden_weights) (\<lambda>hw.
     andthen (np_dot X_train hw) (\<lambda>xw.
     andthen (lookup s hidden_bias) (\<lambda>hb.
     andthen (np_add xw hb) (\<lambda>hv.
     let s = assign hidden_values hv s;
         ha = np_tanh hv;
         s = assign hidden_activations ha s in
     andthen (lookup s output_weights) (\<lambda>ow.
     andthen (np_dot ha ow) (\<lambda>aw.
     andthen (lookup s output_bias) (\<lambda>ob.
     andthen (np_add aw ob) (\<lambda>ov.
     let s = assign output_values ov s in
     andthen (softmax ov) (\<lambda>p. Inr (assign probs p s))))))))))"

text \<open>
  \<^verbatim>\<open>
  output_delta = probs
  output_delta[range(len(X_train)), Y_train] -= 1
  output_weights_delta = (hidden_activations.T).dot(output_delta)
  output_bias_delta = np.sum(output_delta, axis=0, keepdims=True)
  hidden_delta = output_delta.dot(output_weights.T) * (1 - np.power(hidden_activations, 2))
  hidden_weights_delta = np.dot(X_train.T, hidden_delta)
  hidden_bias_delta = np.sum(hidden_delta, axis=0)
  \<close>
\<close>

definition backpropagation :: "ndarray \<Rightarrow> int list \<Rightarrow> state \<Rightarrow> error + state" where
  "backpropagation X_train Y_train s =
     andthen (assign_var output_delta probs s) (\<lambda>s.
     andthen (lookup s output_delta) (\<lambda>od.
     andthen (len X_train) (\<lambda>n.
     andthen (isub_range od n Y_train 1) (\<lambda>od.
     andthen (write_back output_delta od s) (\<lambda>s.
     andthen (lookup s hidden_activations) (\<lambda>ha.
     andthen (lookup s output_delta) (\<lambda>od.
     andthen (np_dot (np_T ha) od) (\<lambda>owd.
     let s = assign output_weights_delta owd s in
     andthen (lookup s output_delta) (\<lambda>od.
     andthen (np_sum_axis0_keepdims od) (\<lambda>obd.
     let s = assign output_bias_delta obd s in
     andthen (lookup s output_delta) (\<lambda>od.
     andthen (lookup s output_weights) (\<lambda>ow.
     andthen (np_dot od (np_T ow)) (\<lambda>back.
     andthen (lookup s hidden_activations) (\<lambda>ha.
     andthen (np_sub (Scalar 1) (np_power ha 2)) (\<lambda>dtanh.
     andthen (np_mul back dtanh) (\<lambda>hdl.
     let s = assign hidden_delta hdl s in
     andthen (lookup s hidden_delta) (\<lambda>hdl.
     andthen (np_dot (np_T X_train) hdl) (\<lambda>hwd.
     let s = assign hidden_weights_delta hwd s in
     andthen (lookup s hidden_delta) (\<lambda>hdl.
     andthen (np_sum_axis0 hdl) (\<lambda>hbd.
     Inr (assign hidden_bias_delta hbd s)))))))))))))))))))))"

text \<open>
  \<^verbatim>\<open>
  # Add regularization terms (the biases don't have regularization terms)
  output_weights_delta += regularization * output_weights
  hidden_weights_delta += regularization * hidden_weights
  \<close>
\<close>

definition add_regularization :: "real \<Rightarrow> state \<Rightarrow> error + state" where
  "add_regularization regularization s =
     andthen (iadd_var output_weights_delta
        (\<lambda>s. andthen (lookup s output_weights) (np_mul (Scalar regularization))) s) (\<lambda>s.
     iadd_var hidden_weights_delta
        (\<lambda>s. andthen (lookup s hidden_weights) (np_mul (Scalar regularization))) s)"

text \<open>
  \<^verbatim>\<open>
  output_weights += -learning_rate * output_weights_delta
  output_bias += -learning_rate * output_bias_delta
  hidden_weights += -learning_rate * hidden_weights_delta
  hidden_bias += -learning_rate * hidden_bias_delta
  \<close>
\<close>

definition update_weights :: "real \<Rightarrow> state \<Rightarrow> error + state" where
  "update_weights learning_rate s =
     andthen (iadd_var output_weights
        (\<lambda>s. andthen (lookup s output_weights_delta) (np_mul (Scalar (- learning_rate)))) s) (\<lambda>s.
     andthen (iadd_var output_bias
        (\<lambda>s. andthen (lookup s output_bias_delta) (np_mul (Scalar (- learning_rate)))) s) (\<lambda>s.
     andthen (iadd_var hidden_weights
        (\<lambda>s. andthen (lookup s hidden_weights_delta) (np_mul (Scalar (- learning_rate)))) s) (\<lambda>s.
     iadd_var hidden_bias
        (\<lambda>s. andthen (lookup s hidden_bias_delta) (np_mul (Scalar (- learning_rate)))) s)))"

text \<open>
  \<^verbatim>\<open>
  model = { "HW": hidden_weights, "HB": hidden_bias, "OW": output_weights, "OB": output_bias }
  \<close>
  The dictionary holds the references of the four variables.
\<close>

definition dict_of :: "(string \<times> var) list \<Rightarrow> state \<Rightarrow> error + (string \<rightharpoonup> nat)" where
  "dict_of items s =
     foldl (\<lambda>acc (k, x). andthen acc (\<lambda>d.
        case env s x of None \<Rightarrow> Inl NameError | Some a \<Rightarrow> Inr (d(k \<mapsto> a))))
       (Inr Map.empty) items"

definition rebuild_model :: "state \<Rightarrow> error + state" where
  "rebuild_model s =
     andthen (dict_of [(''HW'', hidden_weights), (''HB'', hidden_bias),
                       (''OW'', output_weights), (''OB'', output_bias)] s)
       (\<lambda>d. Inr (s\<lparr>model := d\<rparr>))"

text \<open>The arrays a dictionary of references stands for, as \<open>cross_entropy\<close> reads them.\<close>

definition deref :: "state \<Rightarrow> (string \<rightharpoonup> nat) \<Rightarrow> model_dict" where
  "deref s d = (\<lambda>k. case d k of None \<Rightarrow> None | Some a \<Rightarrow> heap s a)"

text \<open>
  \<^verbatim>\<open>
  test_loss.append(cross_entropy(model, X_test, Y_test, regularization))
  train_loss.append(cross_entropy(model, X_train, Y_train, regularization))
  \<close>
\<close>

definition record_losses ::
  "predictor \<Rightarrow> ndarray \<Rightarrow> int list \<Rightarrow> ndarray \<Rightarrow> int list \<Rightarrow> real \<Rightarrow> state \<Rightarrow> error + state" where
  "record_losses predict X_train Y_train X_test Y_test regularization s =
     andthen (cross_entropy predict (deref s (model s)) X_test Y_test regularization) (\<lambda>l.
     let s = s\<lparr>test_loss := test_loss s @ [l]\<rparr> in
     andthen (cross_entropy predict (deref s (model s)) X_train Y_train regularization) (\<lambda>l.
     Inr (s\<lparr>train_loss := train_loss s @ [l]\<rparr>)))"

text \<open>
  The body of \<^verbatim>\<open>for i in range(1, epochs + 1)\<close>. The calls that draw the figures
  (\<^verbatim>\<open>plot\<close>, \<^verbatim>\<open>plot_error\<close>, \<^verbatim>\<open>display\<close>) change no variable of the function and are
  left out; so is an error they may raise.
\<close>

definition epoch ::
  "predictor \<Rightarrow> ndarray \<Rightarrow> int list \<Rightarrow> ndarray \<Rightarrow> int list \<Rightarrow> real \<Rightarrow> real \<Rightarrow> state \<Rightarrow> error + state" where
  "epoch predict X_train Y_train X_test Y_test learning_rate regularization s =
     andthen (forward_propagation X_train s) (\<lambda>s.
     andthen (backpropagation X_train Y_train s) (\<lambda>s.
     andthen (add_regularization regularization s) (\<lambda>s.
     andthen (update_weights learning_rate s) (\<lambda>s.
     andthen (rebuild_model s) (\<lambda>s.
     record_losses predict X_train Y_train X_test Y_test regularization s)))))"

fun epochs_loop ::
  "nat \<Rightarrow> predictor \<Rightarrow> ndarray \<Rightarrow> int list \<Rightarrow> ndarray \<Rightarrow> int list \<Rightarrow> real \<Rightarrow> real \<Rightarrow> state
    \<Rightarrow> error + state" where
  "epochs_loop 0 predict X_train Y_train X_test Y_test learning_rate regularization s = Inr s"
| "epochs_loop (Suc n) predict X_train Y_train X_test Y_test learning_rate regularization s =
     andthen (epoch predict X_train Y_train X_test Y_test learning_rate regularization s)
       (epochs_loop n predict X_train Y_train X_test Y_test learning_rate regularization)"

section \<open>\<^verbatim>\<open>build_model\<close>\<close>

text \<open>
  \<^verbatim>\<open>
  hidden_weights = np.random.randn(input_dimensions, hidden_dimensions) / np.sqrt(input_dimensions)
  hidden_bias = np.zeros((1, hidden_dimensions))
  output_weights = np.random.randn(hidden_dimensions, output_dimensions) / np.sqrt(hidden_dimensions)
  output_bias = np.zeros((1, output_dimensions))
  model = { "HW": hidden_weights, "Hb": hidden_bias, "OW": output_weights, "OB": output_bias }
  \<close>
  The two random draws are parameters (\<open>randn_hw\<close>, \<open>randn_ow\<close>); so are the arrays
  \<^verbatim>\<open>extract_data\<close> (of \<^verbatim>\<open>intro_utils\<close>) returns for the training and the test data.
  The plotting code between the initialization and the loop (\<^verbatim>\<open>mesh_grid\<close>, \<^verbatim>\<open>plt.subplots\<close>,
  \<^verbatim>\<open>scatter\<close> of the first two columns of the data) is left out.
\<close>

definition np_zeros :: "nat \<Rightarrow> nat \<Rightarrow> ndarray" where
  "np_zeros r c = Mat (replicate r (replicate c 0))"

definition empty_state :: state where
  "empty_state = \<lparr>env = Map.empty, heap = Map.empty, fresh = 0, model = Map.empty,
     test_loss = [], train_loss = []\<rparr>"

definition initialize :: "ndarray \<Rightarrow> ndarray \<Rightarrow> nat \<Rightarrow> nat \<Rightarrow> nat \<Rightarrow> error + state" where
  "initialize randn_hw randn_ow input_dimensions hidden_dimensions output_dimensions =
     andthen (np_div randn_hw (Scalar (sqrt (real input_dimensions)))) (\<lambda>hw.
     let s = assign hidden_weights hw empty_state;
         s = assign hidden_bias (np_zeros 1 hidden_dimensions) s in
     andthen (np_div randn_ow (Scalar (sqrt (real hidden_dimensions)))) (\<lambda>ow.
     let s = assign output_weights ow s;
         s = assign output_bias (np_zeros 1 output_dimensions) s in
     andthen (dict_of [(''HW'', hidden_weights), (''Hb'', hidden_bias),
                       (''OW'', output_weights), (''OB'', output_bias)] s)
       (\<lambda>d. Inr (s\<lparr>model := d, test_loss := [], train_loss := []\<rparr>))))"


section \<open>Arrays given by their entries\<close>

text \<open>
  \<open>mat r c f\<close> is the two-dimensional array of shape \<open>(r, c)\<close> whose entry in row \<open>i\<close> and
  column \<open>j\<close> is \<open>f i j\<close>; \<open>has_shape A r c\<close> says that \<open>A\<close> has \<open>r\<close> rows of \<open>c\<close> entries.
\<close>

definition mat :: "nat \<Rightarrow> nat \<Rightarrow> (nat \<Rightarrow> nat \<Rightarrow> real) \<Rightarrow> real list list" where
  "mat r c f = map (\<lambda>i. map (f i) [0..<c]) [0..<r]"

definition has_shape :: "real list list \<Rightarrow> nat \<Rightarrow> nat \<Rightarrow> bool" where
  "has_shape A r c \<longleftrightarrow> length A = r \<and> (\<forall>row \<in> set A. length row = c)"

definition entry :: "real list list \<Rightarrow> nat \<Rightarrow> nat \<Rightarrow> real" where
  "entry A i j = A ! i ! j"

section \<open>The two-layer perceptron, entry by entry\<close>

text \<open>
  The textbook formulas the notebook implements, written for single entries. \<open>layer k x w b\<close>
  is \<open>x \<cdot> w + b\<close> for an input with \<open>k\<close> columns and a bias of one row; \<open>normalized_exp\<close>
  is the row-wise normalized exponential; \<open>one_hot\<close> is the one-hot encoding of the labels.
\<close>

definition layer ::
  "nat \<Rightarrow> (nat \<Rightarrow> nat \<Rightarrow> real) \<Rightarrow> (nat \<Rightarrow> nat \<Rightarrow> real) \<Rightarrow> (nat \<Rightarrow> nat \<Rightarrow> real) \<Rightarrow> nat \<Rightarrow> nat \<Rightarrow> real" where
  "layer k x w b i j = (\<Sum>l<k. x i l * w l j) + b 0 j"

definition hidden_act ::
  "nat \<Rightarrow> (nat \<Rightarrow> nat \<Rightarrow> real) \<Rightarrow> (nat \<Rightarrow> nat \<Rightarrow> real) \<Rightarrow> (nat \<Rightarrow> nat \<Rightarrow> real) \<Rightarrow> nat \<Rightarrow> nat \<Rightarrow> real" where
  "hidden_act d x hw hb i j = tanh (layer d x hw hb i j)"

definition normalized_exp :: "nat \<Rightarrow> (nat \<Rightarrow> nat \<Rightarrow> real) \<Rightarrow> nat \<Rightarrow> nat \<Rightarrow> real" where
  "normalized_exp c z i j = exp (z i j) / (\<Sum>l<c. exp (z i l))"

definition probability ::
  "nat \<Rightarrow> nat \<Rightarrow> nat \<Rightarrow> (nat \<Rightarrow> nat \<Rightarrow> real) \<Rightarrow> (nat \<Rightarrow> nat \<Rightarrow> real) \<Rightarrow> (nat \<Rightarrow> nat \<Rightarrow> real)
    \<Rightarrow> (nat \<Rightarrow> nat \<Rightarrow> real) \<Rightarrow> (nat \<Rightarrow> nat \<Rightarrow> real) \<Rightarrow> nat \<Rightarrow> nat \<Rightarrow> real" where
  "probability d h c x hw hb ow ob = normalized_exp c (layer h (hidden_act d x hw hb) ow ob)"

definition one_hot :: "int list \<Rightarrow> nat \<Rightarrow> nat \<Rightarrow> real" where
  "one_hot Y i j = (if j = nat (Y ! i) then 1 else 0)"

text \<open>Labels are class indices: one for each of the \<open>n\<close> examples, each in \<open>0, ..., c - 1\<close>.\<close>

definition valid_labels :: "int list \<Rightarrow> nat \<Rightarrow> nat \<Rightarrow> bool" where
  "valid_labels Y n c \<longleftrightarrow> length Y = n \<and> (\<forall>y \<in> set Y. 0 \<le> y \<and> y < int c)"

text \<open>The deltas of standard backpropagation for softmax with cross-entropy and a \<open>tanh\<close>
  hidden layer.\<close>

definition delta_out :: "(nat \<Rightarrow> nat \<Rightarrow> real) \<Rightarrow> int list \<Rightarrow> nat \<Rightarrow> nat \<Rightarrow> real" where
  "delta_out p Y i j = p i j - one_hot Y i j"

definition delta_hidden ::
  "nat \<Rightarrow> (nat \<Rightarrow> nat \<Rightarrow> real) \<Rightarrow> (nat \<Rightarrow> nat \<Rightarrow> real) \<Rightarrow> (nat \<Rightarrow> nat \<Rightarrow> real) \<Rightarrow> nat \<Rightarrow> nat \<Rightarrow> real" where
  "delta_hidden c od ow a i j = (\<Sum>l<c. od i l * ow j l) * (1 - (a i j)\<^sup>2)"

text \<open>The parameter deltas, the matrix products of backpropagation written entry by entry:
  \<open>a\<^sup>T \<cdot> od\<close>, the column sums of \<open>od\<close>, \<open>x\<^sup>T \<cdot> dh\<close> and the column sums of \<open>dh\<close>.\<close>

definition grad_ow :: "nat \<Rightarrow> (nat \<Rightarrow> nat \<Rightarrow> real) \<Rightarrow> (nat \<Rightarrow> nat \<Rightarrow> real) \<Rightarrow> nat \<Rightarrow> nat \<Rightarrow> real" where
  "grad_ow N a od j l = (\<Sum>i<N. a i j * od i l)"

definition grad_ob :: "nat \<Rightarrow> (nat \<Rightarrow> nat \<Rightarrow> real) \<Rightarrow> nat \<Rightarrow> nat \<Rightarrow> real" where
  "grad_ob N od i l = (\<Sum>n<N. od n l)"

definition grad_hw :: "nat \<Rightarrow> (nat \<Rightarrow> nat \<Rightarrow> real) \<Rightarrow> (nat \<Rightarrow> nat \<Rightarrow> real) \<Rightarrow> nat \<Rightarrow> nat \<Rightarrow> real" where
  "grad_hw N x dh k j = (\<Sum>i<N. x i k * dh i j)"

definition grad_hb :: "nat \<Rightarrow> (nat \<Rightarrow> nat \<Rightarrow> real) \<Rightarrow> nat \<Rightarrow> real" where
  "grad_hb N dh j = (\<Sum>i<N. dh i j)"

text \<open>Changing one entry of a parameter array, to take a partial derivative.\<close>

definition perturb :: "(nat \<Rightarrow> nat \<Rightarrow> real) \<Rightarrow> nat \<Rightarrow> nat \<Rightarrow> real \<Rightarrow> nat \<Rightarrow> nat \<Rightarrow> real" where
  "perturb f k l t = (\<lambda>i j. if i = k \<and> j = l then t else f i j)"

text \<open>
  The summed, unregularized cross-entropy of the forward pass as a function of the four
  parameter arrays: the forward pass of the training loop is run on a state that holds
  them, and the loss is the \<^verbatim>\<open>np.sum(-np.log(probs[range(n), Y]))\<close> of \<open>cross_entropy\<close>.
\<close>

definition parameter_state :: "ndarray \<Rightarrow> ndarray \<Rightarrow> ndarray \<Rightarrow> ndarray \<Rightarrow> state" where
  "parameter_state hw hb ow ob =
     assign output_bias ob (assign output_weights ow
       (assign hidden_bias hb (assign hidden_weights hw empty_state)))"

definition summed_cross_entropy ::
  "ndarray \<Rightarrow> int list \<Rightarrow> ndarray \<Rightarrow> ndarray \<Rightarrow> ndarray \<Rightarrow> ndarray \<Rightarrow> error + real" where
  "summed_cross_entropy X Y hw hb ow ob =
     andthen (forward_propagation X (parameter_state hw hb ow ob)) (\<lambda>s.
     andthen (lookup s probs) (\<lambda>p.
     andthen (getitem_range p (length Y) Y) (\<lambda>selected.
     Inr (np_sum (np_neg (np_log selected))))))"

text \<open>The entries of an array in row-major order, and the sum of their squares.\<close>

fun flat :: "ndarray \<Rightarrow> real list" where
  "flat (Scalar x) = [x]"
| "flat (Vec v) = v"
| "flat (Mat A) = concat A"

definition sum_of_squares :: "ndarray \<Rightarrow> real" where
  "sum_of_squares a = (\<Sum>x\<leftarrow>flat a. x\<^sup>2)"

section \<open>The states of the training loop\<close>

text \<open>
  \<open>epoch_ready d h c s\<close>: the four parameter variables refer to four different arrays of
  the shapes \<open>(d, h)\<close>, \<open>(1, h)\<close>, \<open>(h, c)\<close> and \<open>(1, c)\<close>.
  \<open>after_epochs ... k s\<close>: \<open>s\<close> is the state of \<open>build_model\<close> when \<open>k\<close> epochs have run.
\<close>

definition epoch_ready :: "nat \<Rightarrow> nat \<Rightarrow> nat \<Rightarrow> state \<Rightarrow> bool" where
  "epoch_ready d h c s \<longleftrightarrow>
     (\<exists>a1 a2 a3 a4 hw hb ow ob.
        env s hidden_weights = Some a1 \<and> env s hidden_bias = Some a2 \<and>
        env s output_weights = Some a3 \<and> env s output_bias = Some a4 \<and>
        heap s a1 = Some (Mat (mat d h hw)) \<and> heap s a2 = Some (Mat (mat (Suc 0) h hb)) \<and>
        heap s a3 = Some (Mat (mat h c ow)) \<and> heap s a4 = Some (Mat (mat (Suc 0) c ob)) \<and>
        distinct [a1, a2, a3, a4] \<and>
        a1 < fresh s \<and> a2 < fresh s \<and> a3 < fresh s \<and> a4 < fresh s)"

definition after_epochs ::
  "predictor \<Rightarrow> real list list \<Rightarrow> real list list \<Rightarrow> real list list \<Rightarrow> int list \<Rightarrow> ndarray
    \<Rightarrow> int list \<Rightarrow> nat \<Rightarrow> nat \<Rightarrow> nat \<Rightarrow> real \<Rightarrow> real \<Rightarrow> nat \<Rightarrow> state \<Rightarrow> bool" where
  "after_epochs predict R1 R2 X Y X_test Y_test d h c learning_rate regularization k s \<longleftrightarrow>
     (\<exists>s0. initialize (Mat R1) (Mat R2) d h c = Inr s0 \<and>
           epochs_loop k predict (Mat X) Y X_test Y_test learning_rate regularization s0 = Inr s)"

text \<open>The shapes \<open>build_model\<close> is called with: \<open>N\<close> training examples of \<open>d\<close> features,
  \<open>h\<close> hidden units, \<open>c\<close> classes, none of them zero.\<close>

definition well_shaped ::
  "real list list \<Rightarrow> real list list \<Rightarrow> real list list \<Rightarrow> int list \<Rightarrow> nat \<Rightarrow> nat \<Rightarrow> nat \<Rightarrow> nat
    \<Rightarrow> bool" where
  "well_shaped R1 R2 X Y N d h c \<longleftrightarrow>
     has_shape R1 d h \<and> has_shape R2 h c \<and> has_shape X N d \<and> valid_labels Y N c \<and>
     0 < N \<and> 0 < d \<and> 0 < h \<and> 0 < c"

section \<open>Notebook cells and the names they use\<close>

text \<open>
  A notebook's code cells run in one kernel namespace. For the question which names a
  cell needs, a top-level statement is kept as the names it reads, in evaluation order,
  and the names it binds: an \<^verbatim>\<open>import\<close> or a \<^verbatim>\<open>def\<close> binds names and reads none (the body
  of a function is not evaluated by its \<^verbatim>\<open>def\<close>); an assignment reads the names of its
  right-hand side and binds its targets; an expression statement only reads. Reading a
  name that is not bound raises \<^verbatim>\<open>NameError\<close>.
\<close>

datatype stmt = Import "string list" | Def string | Assign "string list" "string list"
  | Expr "string list"

fun first_unbound :: "string list \<Rightarrow> string list \<Rightarrow> string option" where
  "first_unbound ns [] = None"
| "first_unbound ns (x # xs) = (if x \<in> set ns then first_unbound ns xs else Some x)"

fun exec_stmt :: "stmt \<Rightarrow> string list \<Rightarrow> error + string list" where
  "exec_stmt (Import names) ns = Inr (ns @ names)"
| "exec_stmt (Def name) ns = Inr (ns @ [name])"
| "exec_stmt (Assign targets reads) ns =
     (case first_unbound ns reads of Some x \<Rightarrow> Inl NameError | None \<Rightarrow> Inr (ns @ targets))"
| "exec_stmt (Expr reads) ns =
     (case first_unbound ns reads of Some x \<Rightarrow> Inl NameError | None \<Rightarrow> Inr ns)"

fun run_cell :: "stmt list \<Rightarrow> string list \<Rightarrow> error + string list" where
  "run_cell [] ns = Inr ns"
| "run_cell (st # sts) ns = andthen (exec_stmt st ns) (run_cell sts)"

fun run_cells :: "stmt list list \<Rightarrow> string list \<Rightarrow> error + string list" where
  "run_cells [] ns = Inr ns"
| "run_cells (cell # cells) ns = andthen (run_cell cell ns) (run_cells cells)"

text \<open>The built-in names the cells of the notebook use.\<close>

definition builtins :: "string list" where
  "builtins = [''list'', ''zip'']"

text \<open>
  The four code cells of the linear-algebra notebook. The names \<^verbatim>\<open>from intro_utils import *\<close>
  binds are those of a module that is not part of the notebook; they are the parameter
  \<open>intro_utils\<close>.
\<close>

definition cell_imports :: "string list \<Rightarrow> stmt list" where
  "cell_imports intro_utils =
     [Import [''sys'', ''os''],
      Expr [''sys'', ''os''],
      Import [''matplotlib''],
      Import [''np''],
      Import [''plt''],
      Expr [''plt''],
      Import intro_utils,
      Import [''clear_output''],
      Import [''display''],
      Import [''make_moons''],
      Import [''precision_score'', ''accuracy_score'']]"

definition cell_cost :: "stmt list" where
  "cell_cost = [Def ''softmax'', Def ''cross_entropy'']"

definition cell_build_model :: "stmt list" where
  "cell_build_model = [Def ''build_model'']"

definition cell_call :: "stmt list" where
  "cell_call =
     [Assign [''train_size''] [],
      Assign [''test_size''] [],
      Assign [''X_train'', ''Y_train''] [''make_moons'', ''train_size''],
      Assign [''X_test'', ''Y_test''] [''make_moons'', ''test_size''],
      Assign [''train_data''] [''list'', ''zip'', ''X_train'', ''Y_train''],
      Assign [''test_data''] [''list'', ''zip'', ''X_test'', ''Y_test''],
      Assign [''LEARNING_RATE''] [],
      Assign [''REGULARIZATION''] [],
      Assign [''HIDDEN_DIMENSIONS''] [],
      Assign [''EPOCHS''] [],
      Expr [''build_model'', ''train_data'', ''test_data'', ''EPOCHS'', ''HIDDEN_DIMENSIONS'',
            ''REGULARIZATION'', ''LEARNING_RATE'']]"

definition notebook :: "string list \<Rightarrow> stmt list list" where
  "notebook intro_utils = [cell_imports intro_utils, cell_cost, cell_build_model, cell_call]"

section \<open>Properties of the array operations\<close>

text \<open>The operations are unfolded only where a lemma says so.\<close>

declare np_dot.simps [simp del] broadcast.simps [simp del] np_map.simps [simp del]
  np_sum_axis1_keepdims.simps [simp del] np_sum_axis0_keepdims.simps [simp del]
  np_sum_axis0.simps [simp del] np_T.simps [simp del] isub_range.simps [simp del]
  getitem_range.simps [simp del] shape.simps [simp del]


lemma mat_nth: "i < r \<Longrightarrow> j < c \<Longrightarrow> mat r c f ! i ! j = f i j"
  by (simp add: mat_def)

lemma length_mat: "length (mat r c f) = r"
  by (simp add: mat_def)

lemma length_mat_row: "i < r \<Longrightarrow> length (mat r c f ! i) = c"
  by (simp add: mat_def)


lemma mat_of_shape: "has_shape A r c \<Longrightarrow> A = mat r c (\<lambda>i j. A ! i ! j)"
  by (auto simp: has_shape_def mat_def intro!: nth_equalityI)

lemma mat_cong: "(\<And>i j. i < r \<Longrightarrow> j < c \<Longrightarrow> f i j = g i j) \<Longrightarrow> mat r c f = mat r c g"
  by (simp add: mat_def)

lemma nrows_mat: "nrows (mat r c f) = r"
  by (simp add: nrows_def mat_def)

lemma ncols_mat: "0 < r \<Longrightarrow> ncols (mat r c f) = c"
  by (simp add: ncols_def mat_def upt_conv_Cons)

lemma columns_mat: "0 < r \<Longrightarrow> columns (mat r c f) = mat c r (\<lambda>j i. f i j)"
  by (simp add: columns_def ncols_mat) (simp add: mat_def)

lemma sum_list_upt: "sum_list (map f [0..<n]) = (\<Sum>k<n. (f k :: real))"
  by (simp add: interv_sum_list_conv_sum_set_nat atLeast0LessThan)

lemma vdot_map: "vdot (map f [0..<n]) (map g [0..<n]) = (\<Sum>k<n. f k * g k)"
  by (simp add: vdot_def zip_map_map zip_same_conv_map sum_list_upt o_def)

lemma np_dot_mat:
  "0 < r \<Longrightarrow> 0 < k \<Longrightarrow>
   np_dot (Mat (mat r k f)) (Mat (mat k c g)) = Inr (Mat (mat r c (\<lambda>i j. \<Sum>x<k. f i x * g x j)))"
  by (simp add: np_dot.simps ncols_mat nrows_mat columns_mat) (simp add: mat_def vdot_map)

lemma np_map_mat: "np_map h (Mat (mat r c f)) = Mat (mat r c (\<lambda>i j. h (f i j)))"
  by (simp add: np_map.simps mat_def)

lemma bzip_same: "bzip h (map f [0..<n]) (map g [0..<n]) = map (\<lambda>i. h (f i) (g i)) [0..<n]"
  by (simp add: bzip_def zip_map_map zip_same_conv_map o_def)

lemma bzip_left1: "bzip h [x] (map g [0..<n]) = map (\<lambda>i. h x (g i)) [0..<n]"
  by (cases "n = 1") (simp_all add: bzip_def)

lemma bzip_right1: "bzip h (map f [0..<n]) [y] = map (\<lambda>i. h (f i) y) [0..<n]"
  by (cases "n = 1") (simp_all add: bzip_def)

lemma bzip_single: "bzip k [a] [b] = [k a b]"
  by (simp add: bzip_def)

lemma mat_one_row: "mat (Suc 0) c f = [map (f 0) [0..<c]]"
  by (simp add: mat_def)

lemma mat_one_col: "mat r (Suc 0) f = map (\<lambda>i. [f i 0]) [0..<r]"
  by (simp add: mat_def)

lemma bzip_mat_same: "bzip (bzip h) (mat r c f) (mat r c g) = mat r c (\<lambda>i j. h (f i j) (g i j))"
  by (simp add: mat_def bzip_same)

lemma bzip_mat_row:
  "bzip (bzip h) (mat r c f) (mat (Suc 0) c g) = mat r c (\<lambda>i j. h (f i j) (g 0 j))"
  by (simp add: mat_one_row) (simp add: mat_def bzip_right1 bzip_same)

lemma bzip_mat_col:
  "bzip (bzip h) (mat r c f) (mat r (Suc 0) g) = mat r c (\<lambda>i j. h (f i j) (g i 0))"
  by (simp add: mat_one_col) (simp add: mat_def bzip_same bzip_right1)

lemma broadcast_same:
  "broadcast h (Mat (mat r c f)) (Mat (mat r c g)) = Inr (Mat (mat r c (\<lambda>i j. h (f i j) (g i j))))"
  by (cases "r = 0")
    (simp_all add: broadcast.simps compatible_def nrows_mat ncols_mat bzip_mat_same, simp add: mat_def ncols_def)

lemma broadcast_row:
  "0 < r \<Longrightarrow>
   broadcast h (Mat (mat r c f)) (Mat (mat (Suc 0) c g)) = Inr (Mat (mat r c (\<lambda>i j. h (f i j) (g 0 j))))"
  by (simp add: broadcast.simps nrows_mat ncols_mat compatible_def bzip_mat_row)

lemma broadcast_col:
  "0 < r \<Longrightarrow>
   broadcast h (Mat (mat r c f)) (Mat (mat r (Suc 0) g)) = Inr (Mat (mat r c (\<lambda>i j. h (f i j) (g i 0))))"
  by (simp add: broadcast.simps nrows_mat ncols_mat compatible_def bzip_mat_col)

lemma broadcast_vec:
  "broadcast h (Mat (mat (Suc 0) c f)) (Vec (map g [0..<c])) = Inr (Mat (mat (Suc 0) c (\<lambda>i j. h (f i j) (g j))))"
  by (simp add: broadcast.simps ncols_def compatible_def mat_one_row bzip_single bzip_same)

lemma broadcast_scalar:
  "broadcast h (Scalar x) (Mat (mat r c f)) = Inr (Mat (mat r c (\<lambda>i j. h x (f i j))))"
  by (simp add: broadcast.simps np_map_mat)

lemma broadcast_scalar_vec:
  "broadcast h (Scalar x) (Vec (map g [0..<c])) = Inr (Vec (map (\<lambda>j. h x (g j)) [0..<c]))"
  by (simp add: broadcast.simps np_map.simps)

lemma shape_mat: "0 < r \<Longrightarrow> shape (Mat (mat r c f)) = [r, c]"
  by (simp add: shape.simps nrows_mat ncols_mat)

lemma sum_axis1_mat:
  "np_sum_axis1_keepdims (Mat (mat r c f)) = Inr (Mat (mat r (Suc 0) (\<lambda>i j. \<Sum>x<c. f i x)))"
  by (simp add: np_sum_axis1_keepdims.simps mat_def sum_list_upt)

lemma sum_axis0_keepdims_mat:
  "0 < r \<Longrightarrow>
   np_sum_axis0_keepdims (Mat (mat r c f)) = Inr (Mat (mat (Suc 0) c (\<lambda>i j. \<Sum>x<r. f x j)))"
  by (simp add: np_sum_axis0_keepdims.simps columns_mat) (simp add: mat_def sum_list_upt)

lemma sum_axis0_mat:
  "0 < r \<Longrightarrow> np_sum_axis0 (Mat (mat r c f)) = Inr (Vec (map (\<lambda>j. \<Sum>x<r. f x j) [0..<c]))"
  by (simp add: np_sum_axis0.simps columns_mat) (simp add: mat_def sum_list_upt)

lemma np_T_mat: "0 < r \<Longrightarrow> np_T (Mat (mat r c f)) = Mat (mat c r (\<lambda>j i. f i j))"
  by (simp add: np_T.simps columns_mat)

lemma setitem_mat:
  "i0 < r \<Longrightarrow> j0 < c \<Longrightarrow>
   setitem (mat r c g) ((i0, j0), x) = mat r c (\<lambda>i j. if i = i0 \<and> j = j0 then x else g i j)"
  by (auto simp: setitem_def mat_def nth_list_update intro!: nth_equalityI)

lemma foldl_setitem_mat:
  "n \<le> r \<Longrightarrow> (\<And>i. i < n \<Longrightarrow> y i < c) \<Longrightarrow>
   foldl setitem (mat r c g) (map (\<lambda>i. ((i, y i), v i)) [0..<n]) =
   mat r c (\<lambda>i j. if i < n \<and> j = y i then v i else g i j)"
proof (induction n)
  case 0
  then show ?case by simp
next
  case (Suc n)
  then have "foldl setitem (mat r c g) (map (\<lambda>i. ((i, y i), v i)) [0..<n]) =
      mat r c (\<lambda>i j. if i < n \<and> j = y i then v i else g i j)"
    by simp
  moreover have "n < r" "y n < c" using Suc.prems by simp_all
  ultimately show ?case
    by (auto simp: setitem_mat less_Suc_eq intro!: mat_cong)
qed

lemma norm_index_nonneg: "0 \<le> i \<Longrightarrow> i < int n \<Longrightarrow> norm_index n i = Inr (nat i)"
  by (simp add: norm_index_def)

lemma norm_pairs_map:
  "(\<And>i. i \<in> set xs \<Longrightarrow> a i < r \<and> 0 \<le> y i \<and> y i < int c) \<Longrightarrow>
   norm_pairs r c (map (\<lambda>i. (int (a i), y i)) xs) = Inr (map (\<lambda>i. (a i, nat (y i))) xs)"
  by (induction xs) (simp_all add: andthen_def norm_index_nonneg)

lemma zip_range: "length Y = n \<Longrightarrow> bzip Pair (map int [0..<n]) Y = map (\<lambda>i. (int i, Y ! i)) [0..<n]"
  by (auto simp: bzip_def intro!: nth_equalityI)

lemma valid_labels_nth:
  assumes "valid_labels Y n c" "i < n"
  shows "0 \<le> Y ! i \<and> Y ! i < int c \<and> nat (Y ! i) < c"
proof -
  have "Y ! i \<in> set Y" using assms by (simp add: valid_labels_def)
  then have "0 \<le> Y ! i \<and> Y ! i < int c" using assms(1) by (simp add: valid_labels_def)
  then show ?thesis by (simp add: nat_less_iff)
qed

lemma index_pairs_mat:
  assumes "0 < r" "n \<le> r" "valid_labels Y n c"
  shows "index_pairs (mat r c f) n Y = Inr (map (\<lambda>i. (i, nat (Y ! i))) [0..<n])"
proof -
  have "norm_pairs r c (map (\<lambda>i. (int (id i), Y ! i)) [0..<n]) = Inr (map (\<lambda>i. (id i, nat (Y ! i))) [0..<n])"
    by (rule norm_pairs_map) (use assms valid_labels_nth[OF assms(3)] in auto)
  moreover have "length Y = n" using assms(3) by (simp add: valid_labels_def)
  ultimately show ?thesis using assms(1,2)
    by (simp add: index_pairs_def compatible_def zip_range nrows_mat ncols_mat)
qed

lemma isub_range_mat:
  assumes "0 < r" "valid_labels Y r c"
  shows "isub_range (Mat (mat r c f)) r Y d =
         Inr (Mat (mat r c (\<lambda>i j. f i j - (if j = nat (Y ! i) then d else 0))))"
proof -
  have lt: "\<And>i. i < r \<Longrightarrow> nat (Y ! i) < c" using valid_labels_nth[OF assms(2)] by simp
  have fold: "foldl setitem (mat r c f) (map (\<lambda>i. ((i, nat (Y ! i)), f i (nat (Y ! i)) - d)) [0..<r]) =
        mat r c (\<lambda>i j. if i < r \<and> j = nat (Y ! i) then f i (nat (Y ! i)) - d else f i j)"
    by (rule foldl_setitem_mat) (use lt in auto)
  have upd: "map (\<lambda>(i, j). ((i, j), mat r c f ! i ! j - d)) (map (\<lambda>i. (i, nat (Y ! i))) [0..<r]) =
        map (\<lambda>i. ((i, nat (Y ! i)), f i (nat (Y ! i)) - d)) [0..<r]"
    using lt by (simp add: mat_nth)
  have fin: "mat r c (\<lambda>i j. if i < r \<and> j = nat (Y ! i) then f i (nat (Y ! i)) - d else f i j) =
        mat r c (\<lambda>i j. f i j - (if j = nat (Y ! i) then d else 0))"
    by (rule mat_cong) auto
  have ip: "index_pairs (mat r c f) r Y = Inr (map (\<lambda>i. (i, nat (Y ! i))) [0..<r])"
    by (rule index_pairs_mat) (use assms in auto)
  show ?thesis
    apply (simp only: isub_range.simps ip andthen_def sum.case)
    apply (simp only: upd)
    apply (simp only: fold fin)
    done
qed

lemma getitem_range_mat:
  assumes "0 < r" "n \<le> r" "valid_labels Y n c"
  shows "getitem_range (Mat (mat r c f)) n Y = Inr (Vec (map (\<lambda>i. f i (nat (Y ! i))) [0..<n]))"
proof -
  have lt: "\<And>i. i < n \<Longrightarrow> nat (Y ! i) < c" using valid_labels_nth[OF assms(3)] by simp
  show ?thesis
    using index_pairs_mat[OF assms, of f] lt assms(2)
    by (simp add: getitem_range.simps andthen_def o_def mat_nth)
qed

lemma isub_one_hot:
  assumes "0 < r" "valid_labels Y r c"
  shows "isub_range (Mat (mat r c p)) r Y 1 = Inr (Mat (mat r c (delta_out p Y)))"
  by (simp add: isub_range_mat[OF assms] delta_out_def[abs_def] one_hot_def)

section \<open>The steps of an epoch on a state whose arrays are known\<close>

lemma forward_state:
  assumes e: "env s hidden_weights = Some ahw" "env s hidden_bias = Some ahb"
      "env s output_weights = Some aow" "env s output_bias = Some aob"
    and hp: "heap s ahw = Some (Mat (mat d h hw))" "heap s ahb = Some (Mat (mat (Suc 0) h hb))"
      "heap s aow = Some (Mat (mat h c ow))" "heap s aob = Some (Mat (mat (Suc 0) c ob))"
    and lt: "ahw < fresh s" "ahb < fresh s" "aow < fresh s" "aob < fresh s"
    and dims: "0 < N" "0 < d" "0 < h" "0 < c"
  shows "forward_propagation (Mat (mat N d x)) s = Inr (s\<lparr>
      env := (env s)(hidden_values \<mapsto> fresh s, hidden_activations \<mapsto> Suc (fresh s),
               output_values \<mapsto> Suc (Suc (fresh s)), probs \<mapsto> Suc (Suc (Suc (fresh s)))),
      heap := (heap s)(
        fresh s \<mapsto> Mat (mat N h (layer d x hw hb)),
        Suc (fresh s) \<mapsto> Mat (mat N h (hidden_act d x hw hb)),
        Suc (Suc (fresh s)) \<mapsto> Mat (mat N c (layer h (hidden_act d x hw hb) ow ob)),
        Suc (Suc (Suc (fresh s))) \<mapsto> Mat (mat N c (probability d h c x hw hb ow ob))),
      fresh := Suc (Suc (Suc (Suc (fresh s))))\<rparr>)"
  using assms
  by (simp add: forward_propagation_def andthen_def lookup_def assign_def Let_def
      np_dot_mat np_add_def broadcast_row np_tanh_def np_map_mat softmax_def np_exp_def
      sum_axis1_mat np_div_def broadcast_col layer_def[abs_def] hidden_act_def[abs_def]
      probability_def[abs_def] normalized_exp_def[abs_def])

lemma backpropagation_state:
  assumes e: "env s probs = Some ap" "env s hidden_activations = Some aa"
      "env s output_weights = Some aow"
    and hp: "heap s ap = Some (Mat (mat N c p))" "heap s aa = Some (Mat (mat N h a))"
      "heap s aow = Some (Mat (mat h c ow))"
    and ne: "ap \<noteq> aa" "ap \<noteq> aow"
    and lt: "ap < fresh s" "aa < fresh s" "aow < fresh s"
    and dims: "0 < N" "0 < d" "0 < h" "0 < c"
    and Y: "valid_labels Y N c"
  shows "backpropagation (Mat (mat N d x)) Y s = Inr (s\<lparr>
      env := (env s)(output_delta \<mapsto> ap, output_weights_delta \<mapsto> fresh s,
               output_bias_delta \<mapsto> Suc (fresh s), hidden_delta \<mapsto> Suc (Suc (fresh s)),
               hidden_weights_delta \<mapsto> Suc (Suc (Suc (fresh s))),
               hidden_bias_delta \<mapsto> Suc (Suc (Suc (Suc (fresh s))))),
      heap := (heap s)(
        ap \<mapsto> Mat (mat N c (delta_out p Y)),
        fresh s \<mapsto> Mat (mat h c (grad_ow N a (delta_out p Y))),
        Suc (fresh s) \<mapsto> Mat (mat (Suc 0) c (grad_ob N (delta_out p Y))),
        Suc (Suc (fresh s)) \<mapsto> Mat (mat N h (delta_hidden c (delta_out p Y) ow a)),
        Suc (Suc (Suc (fresh s))) \<mapsto>
          Mat (mat d h (grad_hw N x (delta_hidden c (delta_out p Y) ow a))),
        Suc (Suc (Suc (Suc (fresh s)))) \<mapsto>
          Vec (map (grad_hb N (delta_hidden c (delta_out p Y) ow a)) [0..<h])),
      fresh := Suc (Suc (Suc (Suc (Suc (fresh s)))))\<rparr>)"
  using e hp ne ne[symmetric] lt dims isub_one_hot[OF dims(1) Y, of p]
  by (simp add: backpropagation_def andthen_def lookup_def assign_def assign_var_def
      write_back_def Let_def nrows_mat np_T_mat np_dot_mat sum_axis0_keepdims_mat
      sum_axis0_mat np_sub_def np_mul_def np_power_def np_map_mat broadcast_scalar
      broadcast_same delta_hidden_def[abs_def] grad_ow_def[abs_def] grad_ob_def[abs_def]
      grad_hw_def[abs_def] grad_hb_def[abs_def])

lemma add_regularization_state:
  assumes e: "env s output_weights_delta = Some bow" "env s hidden_weights_delta = Some bhw"
      "env s output_weights = Some aow" "env s hidden_weights = Some ahw"
    and hp: "heap s bow = Some (Mat (mat h c owd))" "heap s bhw = Some (Mat (mat d h hwd))"
      "heap s aow = Some (Mat (mat h c ow))" "heap s ahw = Some (Mat (mat d h hw))"
    and ne: "bhw \<noteq> bow" "ahw \<noteq> bow"
    and dims: "0 < d" "0 < h"
  shows "add_regularization reg s = Inr (s\<lparr>heap := (heap s)(
        bow \<mapsto> Mat (mat h c (\<lambda>i j. owd i j + reg * ow i j)),
        bhw \<mapsto> Mat (mat d h (\<lambda>i j. hwd i j + reg * hw i j)))\<rparr>)"
  using assms
  by (simp add: add_regularization_def iadd_var_def andthen_def lookup_def write_back_def
      np_mul_def np_iadd_def np_add_def broadcast_scalar broadcast_same shape_mat)

lemma update_weights_state:
  assumes e: "env s output_weights = Some aow" "env s output_bias = Some aob"
      "env s hidden_weights = Some ahw" "env s hidden_bias = Some ahb"
      "env s output_weights_delta = Some bow" "env s output_bias_delta = Some bob"
      "env s hidden_weights_delta = Some bhw" "env s hidden_bias_delta = Some bhb"
    and hp: "heap s aow = Some (Mat (mat h c ow))" "heap s aob = Some (Mat (mat (Suc 0) c ob))"
      "heap s ahw = Some (Mat (mat d h hw))" "heap s ahb = Some (Mat (mat (Suc 0) h hb))"
      "heap s bow = Some (Mat (mat h c owd))" "heap s bob = Some (Mat (mat (Suc 0) c obd))"
      "heap s bhw = Some (Mat (mat d h hwd))" "heap s bhb = Some (Vec (map hbd [0..<h]))"
    and ne: "distinct [ahw, ahb, aow, aob, bow, bhw, bob, bhb]"
    and dims: "0 < d" "0 < h"
  shows "update_weights lr s = Inr (s\<lparr>heap := (heap s)(
        aow \<mapsto> Mat (mat h c (\<lambda>i j. ow i j + - lr * owd i j)),
        aob \<mapsto> Mat (mat (Suc 0) c (\<lambda>i j. ob i j + - lr * obd i j)),
        ahw \<mapsto> Mat (mat d h (\<lambda>i j. hw i j + - lr * hwd i j)),
        ahb \<mapsto> Mat (mat (Suc 0) h (\<lambda>i j. hb i j + - lr * hbd j)))\<rparr>)"
proof -
  have neq: "ahw \<noteq> ahb" "ahw \<noteq> aow" "ahw \<noteq> aob" "ahw \<noteq> bow" "ahw \<noteq> bhw" "ahw \<noteq> bob" "ahw \<noteq> bhb" "ahb \<noteq> ahw" "ahb \<noteq> aow" "ahb \<noteq> aob" "ahb \<noteq> bow" "ahb \<noteq> bhw" "ahb \<noteq> bob" "ahb \<noteq> bhb" "aow \<noteq> ahw" "aow \<noteq> ahb" "aow \<noteq> aob" "aow \<noteq> bow" "aow \<noteq> bhw" "aow \<noteq> bob" "aow \<noteq> bhb" "aob \<noteq> ahw" "aob \<noteq> ahb" "aob \<noteq> aow" "aob \<noteq> bow" "aob \<noteq> bhw" "aob \<noteq> bob" "aob \<noteq> bhb" "bow \<noteq> ahw" "bow \<noteq> ahb" "bow \<noteq> aow" "bow \<noteq> aob" "bow \<noteq> bhw" "bow \<noteq> bob" "bow \<noteq> bhb" "bhw \<noteq> ahw" "bhw \<noteq> ahb" "bhw \<noteq> aow" "bhw \<noteq> aob" "bhw \<noteq> bow" "bhw \<noteq> bob" "bhw \<noteq> bhb" "bob \<noteq> ahw" "bob \<noteq> ahb" "bob \<noteq> aow" "bob \<noteq> aob" "bob \<noteq> bow" "bob \<noteq> bhw" "bob \<noteq> bhb" "bhb \<noteq> ahw" "bhb \<noteq> ahb" "bhb \<noteq> aow" "bhb \<noteq> aob" "bhb \<noteq> bow" "bhb \<noteq> bhw" "bhb \<noteq> bob"
    using ne by auto
  show ?thesis
    using e hp neq dims
    by (simp add: update_weights_def iadd_var_def andthen_def lookup_def write_back_def
      np_mul_def np_iadd_def np_add_def broadcast_scalar broadcast_scalar_vec broadcast_same
      broadcast_row broadcast_vec shape_mat)
qed

lemma broadcast_mat_scalar:
  "broadcast k (Mat (mat r c f)) (Scalar y) = Inr (Mat (mat r c (\<lambda>i j. k (f i j) y)))"
  by (simp add: broadcast.simps mat_def)

lemma np_zeros_mat: "np_zeros r c = Mat (mat r c (\<lambda>i j. 0))"
  by (simp add: np_zeros_def mat_def map_replicate_const)

lemma initialize_state:
  assumes "0 < d" "0 < h"
  shows "initialize (Mat (mat d h r1)) (Mat (mat h c r2)) d h c = Inr
     \<lparr>env = [hidden_weights \<mapsto> 0, hidden_bias \<mapsto> Suc 0, output_weights \<mapsto> Suc (Suc 0),
              output_bias \<mapsto> Suc (Suc (Suc 0))],
      heap = [0 \<mapsto> Mat (mat d h (\<lambda>i j. r1 i j / sqrt (real d))),
              Suc 0 \<mapsto> Mat (mat (Suc 0) h (\<lambda>i j. 0)),
              Suc (Suc 0) \<mapsto> Mat (mat h c (\<lambda>i j. r2 i j / sqrt (real h))),
              Suc (Suc (Suc 0)) \<mapsto> Mat (mat (Suc 0) c (\<lambda>i j. 0))],
      fresh = Suc (Suc (Suc (Suc 0))),
      model = [''HW'' \<mapsto> 0, ''Hb'' \<mapsto> Suc 0, ''OW'' \<mapsto> Suc (Suc 0), ''OB'' \<mapsto> Suc (Suc (Suc 0))],
      test_loss = [], train_loss = []\<rparr>"
  by (simp add: initialize_def andthen_def np_div_def broadcast_mat_scalar np_zeros_mat
      assign_def empty_state_def dict_of_def Let_def)

lemma epoch_ready_initialize:
  assumes "0 < d" "0 < h" "initialize (Mat (mat d h r1)) (Mat (mat h c r2)) d h c = Inr s"
  shows "epoch_ready d h c s"
  using assms(3) unfolding initialize_state[OF assms(1,2)] epoch_ready_def
  by auto

text \<open>The four steps of an epoch that change arrays, run one after the other.\<close>

lemma epoch_steps:
  assumes e: "env s hidden_weights = Some ahw" "env s hidden_bias = Some ahb"
      "env s output_weights = Some aow" "env s output_bias = Some aob"
    and hp: "heap s ahw = Some (Mat (mat d h hw))" "heap s ahb = Some (Mat (mat (Suc 0) h hb))"
      "heap s aow = Some (Mat (mat h c ow))" "heap s aob = Some (Mat (mat (Suc 0) c ob))"
    and ne: "distinct [ahw, ahb, aow, aob]"
    and lt: "ahw < fresh s" "ahb < fresh s" "aow < fresh s" "aob < fresh s"
    and dims: "0 < N" "0 < d" "0 < h" "0 < c"
    and Y: "valid_labels Y N c"
    and A: "A = hidden_act d x hw hb" and P: "P = probability d h c x hw hb ow ob"
    and OD: "OD = delta_out P Y" and HD: "HD = delta_hidden c OD ow A"
  shows "\<exists>s1 s2 s3 s4.
      forward_propagation (Mat (mat N d x)) s = Inr s1 \<and>
      backpropagation (Mat (mat N d x)) Y s1 = Inr s2 \<and>
      add_regularization reg s2 = Inr s3 \<and>
      update_weights lr s3 = Inr s4 \<and>
      lookup s1 hidden_activations = Inr (Mat (mat N h A)) \<and>
      lookup s1 probs = Inr (Mat (mat N c P)) \<and>
      env s2 output_delta = env s2 probs \<and>
      lookup s2 probs = Inr (Mat (mat N c OD)) \<and>
      lookup s2 output_delta = Inr (Mat (mat N c OD)) \<and>
      lookup s2 hidden_delta = Inr (Mat (mat N h HD)) \<and>
      lookup s2 output_weights_delta = Inr (Mat (mat h c (grad_ow N A OD))) \<and>
      lookup s2 output_bias_delta = Inr (Mat (mat (Suc 0) c (grad_ob N OD))) \<and>
      lookup s2 hidden_weights_delta = Inr (Mat (mat d h (grad_hw N x HD))) \<and>
      lookup s2 hidden_bias_delta = Inr (Vec (map (grad_hb N HD) [0..<h])) \<and>
      lookup s2 hidden_weights = Inr (Mat (mat d h hw)) \<and>
      lookup s2 hidden_bias = Inr (Mat (mat (Suc 0) h hb)) \<and>
      lookup s2 output_weights = Inr (Mat (mat h c ow)) \<and>
      lookup s2 output_bias = Inr (Mat (mat (Suc 0) c ob)) \<and>
      env s3 = env s2 \<and>
      lookup s3 output_weights_delta = Inr (Mat (mat h c (\<lambda>i j. grad_ow N A OD i j + reg * ow i j))) \<and>
      lookup s3 hidden_weights_delta = Inr (Mat (mat d h (\<lambda>i j. grad_hw N x HD i j + reg * hw i j))) \<and>
      lookup s3 output_bias_delta = lookup s2 output_bias_delta \<and>
      lookup s3 hidden_bias_delta = lookup s2 hidden_bias_delta \<and>
      (\<forall>a. env s2 output_weights_delta \<noteq> Some a \<and> env s2 hidden_weights_delta \<noteq> Some a
           \<longrightarrow> heap s3 a = heap s2 a) \<and>
      lookup s3 hidden_weights = Inr (Mat (mat d h hw)) \<and>
      lookup s3 hidden_bias = Inr (Mat (mat (Suc 0) h hb)) \<and>
      lookup s3 output_weights = Inr (Mat (mat h c ow)) \<and>
      lookup s3 output_bias = Inr (Mat (mat (Suc 0) c ob)) \<and>
      env s4 = env s3 \<and>
      lookup s4 output_weights =
        Inr (Mat (mat h c (\<lambda>i j. ow i j - lr * (grad_ow N A OD i j + reg * ow i j)))) \<and>
      lookup s4 output_bias = Inr (Mat (mat (Suc 0) c (\<lambda>i j. ob i j - lr * grad_ob N OD i j))) \<and>
      lookup s4 hidden_weights =
        Inr (Mat (mat d h (\<lambda>i j. hw i j - lr * (grad_hw N x HD i j + reg * hw i j)))) \<and>
      lookup s4 hidden_bias = Inr (Mat (mat (Suc 0) h (\<lambda>i j. hb i j - lr * grad_hb N HD j))) \<and>
      (\<forall>a. a \<notin> {ahw, ahb, aow, aob} \<longrightarrow> heap s4 a = heap s3 a) \<and>
      env s4 hidden_weights = Some ahw \<and> env s4 hidden_bias = Some ahb \<and>
      env s4 output_weights = Some aow \<and> env s4 output_bias = Some aob \<and>
      fresh s \<le> fresh s4 \<and> model s4 = model s \<and> test_loss s4 = test_loss s \<and>
      train_loss s4 = train_loss s"
proof -
  have neq: "ahw \<noteq> ahb" "ahw \<noteq> aow" "ahw \<noteq> aob" "ahb \<noteq> aow" "ahb \<noteq> aob" "aow \<noteq> aob"
    using ne by auto
  note neq' = neq neq[symmetric]
  define s1 where "s1 = s\<lparr>
      env := (env s)(hidden_values \<mapsto> fresh s, hidden_activations \<mapsto> Suc (fresh s),
               output_values \<mapsto> Suc (Suc (fresh s)), probs \<mapsto> Suc (Suc (Suc (fresh s)))),
      heap := (heap s)(
        fresh s \<mapsto> Mat (mat N h (layer d x hw hb)),
        Suc (fresh s) \<mapsto> Mat (mat N h A),
        Suc (Suc (fresh s)) \<mapsto> Mat (mat N c (layer h A ow ob)),
        Suc (Suc (Suc (fresh s))) \<mapsto> Mat (mat N c P)),
      fresh := Suc (Suc (Suc (Suc (fresh s))))\<rparr>"
  have s1: "forward_propagation (Mat (mat N d x)) s = Inr s1"
    unfolding s1_def A P by (rule forward_state[OF e hp lt dims])
  define s2 where "s2 = s1\<lparr>
      env := (env s1)(output_delta \<mapsto> Suc (Suc (Suc (fresh s))), output_weights_delta \<mapsto> fresh s1,
               output_bias_delta \<mapsto> Suc (fresh s1), hidden_delta \<mapsto> Suc (Suc (fresh s1)),
               hidden_weights_delta \<mapsto> Suc (Suc (Suc (fresh s1))),
               hidden_bias_delta \<mapsto> Suc (Suc (Suc (Suc (fresh s1))))),
      heap := (heap s1)(
        Suc (Suc (Suc (fresh s))) \<mapsto> Mat (mat N c (delta_out P Y)),
        fresh s1 \<mapsto> Mat (mat h c (grad_ow N A (delta_out P Y))),
        Suc (fresh s1) \<mapsto> Mat (mat (Suc 0) c (grad_ob N (delta_out P Y))),
        Suc (Suc (fresh s1)) \<mapsto> Mat (mat N h (delta_hidden c (delta_out P Y) ow A)),
        Suc (Suc (Suc (fresh s1))) \<mapsto>
          Mat (mat d h (grad_hw N x (delta_hidden c (delta_out P Y) ow A))),
        Suc (Suc (Suc (Suc (fresh s1)))) \<mapsto>
          Vec (map (grad_hb N (delta_hidden c (delta_out P Y) ow A)) [0..<h])),
      fresh := Suc (Suc (Suc (Suc (Suc (fresh s1)))))\<rparr>"
  have s2: "backpropagation (Mat (mat N d x)) Y s1 = Inr s2"
    unfolding s2_def
    by (rule backpropagation_state[where aow = aow and aa = "Suc (fresh s)"])
       (use e hp lt dims Y in \<open>simp_all add: s1_def\<close>)
  define s3 where "s3 = s2\<lparr>heap := (heap s2)(
        fresh s1 \<mapsto> Mat (mat h c (\<lambda>i j. grad_ow N A OD i j + reg * ow i j)),
        Suc (Suc (Suc (fresh s1))) \<mapsto> Mat (mat d h (\<lambda>i j. grad_hw N x HD i j + reg * hw i j)))\<rparr>"
  have s3: "add_regularization reg s2 = Inr s3"
    unfolding s3_def
    by (rule add_regularization_state[where aow = aow and ahw = ahw and ow = ow and hw = hw])
       (use e hp lt dims neq' in \<open>simp_all add: s2_def s1_def OD HD\<close>)
  define s4 where "s4 = s3\<lparr>heap := (heap s3)(
        aow \<mapsto> Mat (mat h c (\<lambda>i j. ow i j + - lr * (grad_ow N A OD i j + reg * ow i j))),
        aob \<mapsto> Mat (mat (Suc 0) c (\<lambda>i j. ob i j + - lr * grad_ob N OD i j)),
        ahw \<mapsto> Mat (mat d h (\<lambda>i j. hw i j + - lr * (grad_hw N x HD i j + reg * hw i j))),
        ahb \<mapsto> Mat (mat (Suc 0) h (\<lambda>i j. hb i j + - lr * grad_hb N HD j)))\<rparr>"
  have s4: "update_weights lr s3 = Inr s4"
    unfolding s4_def
    by (rule update_weights_state[where bow = "fresh s1" and bob = "Suc (fresh s1)"
          and bhw = "Suc (Suc (Suc (fresh s1)))" and bhb = "Suc (Suc (Suc (Suc (fresh s1))))"])
       (use e hp lt dims neq' in \<open>simp_all add: s3_def s2_def s1_def OD HD\<close>)
  show ?thesis
    apply (rule exI[of _ s1], rule exI[of _ s2], rule exI[of _ s3], rule exI[of _ s4])
    apply (simp only: s1 s2 s3 s4 simp_thms)
    using e hp lt neq'
    apply (simp add: lookup_def s4_def s3_def s2_def s1_def OD HD)
    done
qed

section \<open>Every epoch starts in a state with well-shaped parameters\<close>

lemma rebuild_model_frame:
  assumes "rebuild_model s = Inr s'"
  shows "env s' = env s \<and> heap s' = heap s \<and> fresh s' = fresh s \<and>
         test_loss s' = test_loss s \<and> train_loss s' = train_loss s"
  using assms by (auto simp: rebuild_model_def andthen_def split: sum.splits)

lemma record_losses_frame:
  assumes "record_losses predict X Y Xt Yt reg s = Inr s'"
  shows "env s' = env s \<and> heap s' = heap s \<and> fresh s' = fresh s \<and> model s' = model s"
  using assms by (auto simp: record_losses_def andthen_def Let_def split: sum.splits)

lemma lookup_heap: "lookup s x = Inr v \<Longrightarrow> env s x = Some a \<Longrightarrow> heap s a = Some v"
  by (auto simp: lookup_def split: option.splits)

lemma epoch_ready_epoch:
  assumes r: "epoch_ready d h c s" and dims: "0 < N" "0 < d" "0 < h" "0 < c"
    and Y: "valid_labels Y N c"
    and ep: "epoch predict (Mat (mat N d x)) Y Xt Yt lr reg s = Inr s'"
  shows "epoch_ready d h c s'"
proof -
  from r obtain ahw ahb aow aob hw hb ow ob where
    e: "env s hidden_weights = Some ahw" "env s hidden_bias = Some ahb"
       "env s output_weights = Some aow" "env s output_bias = Some aob"
    and hp: "heap s ahw = Some (Mat (mat d h hw))" "heap s ahb = Some (Mat (mat (Suc 0) h hb))"
       "heap s aow = Some (Mat (mat h c ow))" "heap s aob = Some (Mat (mat (Suc 0) c ob))"
    and ne: "distinct [ahw, ahb, aow, aob]"
    and lt: "ahw < fresh s" "ahb < fresh s" "aow < fresh s" "aob < fresh s"
    unfolding epoch_ready_def by blast
  from epoch_steps[OF e hp ne lt dims Y refl refl refl refl, of x reg lr]
  obtain s1 s2 s3 s4 where
    st: "forward_propagation (Mat (mat N d x)) s = Inr s1"
        "backpropagation (Mat (mat N d x)) Y s1 = Inr s2"
        "add_regularization reg s2 = Inr s3"
        "update_weights lr s3 = Inr s4"
    and l4: "\<exists>w. lookup s4 output_weights = Inr (Mat (mat h c w))"
        "\<exists>w. lookup s4 output_bias = Inr (Mat (mat (Suc 0) c w))"
        "\<exists>w. lookup s4 hidden_weights = Inr (Mat (mat d h w))"
        "\<exists>w. lookup s4 hidden_bias = Inr (Mat (mat (Suc 0) h w))"
    and e4: "env s4 hidden_weights = Some ahw" "env s4 hidden_bias = Some ahb"
        "env s4 output_weights = Some aow" "env s4 output_bias = Some aob"
    and f4: "fresh s \<le> fresh s4"
    by blast
  from ep st obtain s5 where s5: "rebuild_model s4 = Inr s5"
    and s': "record_losses predict (Mat (mat N d x)) Y Xt Yt reg s5 = Inr s'"
    by (auto simp: epoch_def andthen_def split: sum.splits)
  have fr: "env s' = env s4" "heap s' = heap s4" "fresh s' = fresh s4"
    using rebuild_model_frame[OF s5] record_losses_frame[OF s'] by simp_all
  show ?thesis
    unfolding epoch_ready_def fr
    using l4 e4 f4 lt ne
    by (auto dest!: lookup_heap[where s = s4])
qed

lemma epochs_loop_ready:
  assumes dims: "0 < N" "0 < d" "0 < h" "0 < c" and Y: "valid_labels Y N c"
  shows "epoch_ready d h c s \<Longrightarrow>
         epochs_loop k predict (Mat (mat N d x)) Y Xt Yt lr reg s = Inr s' \<Longrightarrow>
         epoch_ready d h c s'"
proof (induction k arbitrary: s)
  case 0
  then show ?case by simp
next
  case (Suc k)
  from Suc.prems(2) obtain s1 where
    s1: "epoch predict (Mat (mat N d x)) Y Xt Yt lr reg s = Inr s1"
    and rest: "epochs_loop k predict (Mat (mat N d x)) Y Xt Yt lr reg s1 = Inr s'"
    by (auto simp: andthen_def split: sum.splits)
  have "epoch_ready d h c s1"
    by (rule epoch_ready_epoch[OF Suc.prems(1) dims Y s1])
  then show ?case using Suc.IH rest by blast
qed

lemma well_shaped_mat:
  assumes "well_shaped R1 R2 X Y N d h c"
  shows "R1 = mat d h (entry R1)" "R2 = mat h c (entry R2)" "X = mat N d (entry X)"
    "valid_labels Y N c" "0 < N" "0 < d" "0 < h" "0 < c"
  using assms mat_of_shape[of R1 d h] mat_of_shape[of R2 h c] mat_of_shape[of X N d]
  by (simp_all add: well_shaped_def entry_def[abs_def])

lemma after_epochs_ready:
  assumes ws: "well_shaped R1 R2 X Y N d h c"
    and ae: "after_epochs predict R1 R2 X Y Xt Yt d h c lr reg k s"
  shows "epoch_ready d h c s"
proof -
  note m = well_shaped_mat[OF ws]
  from ae obtain s0 where
    i: "initialize (Mat (mat d h (entry R1))) (Mat (mat h c (entry R2))) d h c = Inr s0"
    and l: "epochs_loop k predict (Mat (mat N d (entry X))) Y Xt Yt lr reg s0 = Inr s"
    unfolding after_epochs_def using m(1,2,3) by metis
  have "epoch_ready d h c s0" by (rule epoch_ready_initialize[OF m(6,7) i])
  then show ?thesis by (rule epochs_loop_ready[OF m(5-8) m(4) _ l])
qed

section \<open>The training loop reaches every epoch\<close>

text \<open>An example with the default dimensions of \<^verbatim>\<open>build_model\<close>: two features, three hidden
  units, two classes; two training and two test examples.\<close>

lemma example_shapes: "well_shaped [[1, 2, 3], [4, 5, 6]] [[1, 2], [3, 4], [5, 6]] [[1, 2], [3, 4]] [0, 1] 2 2 3 2"
  by (simp add: well_shaped_def has_shape_def valid_labels_def)

lemma cross_entropy_returns:
  assumes hw: "mdl ''HW'' = Some hw" and ow: "mdl ''OW'' = Some ow"
    and p: "predict mdl X = Inr (Mat p)" and sh: "has_shape p (length Y) c"
    and Y: "valid_labels Y (length Y) c" and n: "0 < length Y"
  shows "\<exists>v. cross_entropy predict mdl X Y regularization = Inr v"
proof -
  have pm: "p = mat (length Y) c (\<lambda>i j. p ! i ! j)" by (rule mat_of_shape[OF sh])
  have g: "getitem_range (Mat p) (length Y) Y = Inr (Vec (map (\<lambda>i. p ! i ! nat (Y ! i)) [0..<length Y]))"
    using getitem_range_mat[OF n le_refl Y, of "\<lambda>i j. p ! i ! j"] pm by simp
  show ?thesis
    using hw ow p g n
    by (simp add: cross_entropy_def getitem_def andthen_def Let_def)
qed

text \<open>An epoch returns when \<open>predict\<close> returns probability matrices of the right shapes.\<close>

lemma epoch_returns:
  assumes r: "epoch_ready d h c s" and dims: "0 < N" "0 < d" "0 < h" "0 < c"
    and Y: "valid_labels Y N c"
    and Yt: "valid_labels Yt (length Yt) ct" "0 < length Yt"
    and ptrain: "\<forall>m. \<exists>p. predict m (Mat (mat N d x)) = Inr (Mat p) \<and> has_shape p N c"
    and ptest: "\<forall>m. \<exists>p. predict m Xt = Inr (Mat p) \<and> has_shape p (length Yt) ct"
  shows "\<exists>s'. epoch predict (Mat (mat N d x)) Y Xt Yt lr reg s = Inr s'"
proof -
  from r obtain ahw ahb aow aob hw hb ow ob where
    e: "env s hidden_weights = Some ahw" "env s hidden_bias = Some ahb"
       "env s output_weights = Some aow" "env s output_bias = Some aob"
    and hp: "heap s ahw = Some (Mat (mat d h hw))" "heap s ahb = Some (Mat (mat (Suc 0) h hb))"
       "heap s aow = Some (Mat (mat h c ow))" "heap s aob = Some (Mat (mat (Suc 0) c ob))"
    and ne: "distinct [ahw, ahb, aow, aob]"
    and lt: "ahw < fresh s" "ahb < fresh s" "aow < fresh s" "aob < fresh s"
    unfolding epoch_ready_def by blast
  from epoch_steps[OF e hp ne lt dims Y refl refl refl refl, of x reg lr]
  obtain s1 s2 s3 s4 where
    st: "forward_propagation (Mat (mat N d x)) s = Inr s1"
        "backpropagation (Mat (mat N d x)) Y s1 = Inr s2"
        "add_regularization reg s2 = Inr s3"
        "update_weights lr s3 = Inr s4"
    and l4: "\<exists>w. lookup s4 output_weights = Inr w" "\<exists>w. lookup s4 hidden_weights = Inr w"
    and e4: "env s4 hidden_weights = Some ahw" "env s4 hidden_bias = Some ahb"
        "env s4 output_weights = Some aow" "env s4 output_bias = Some aob"
    by blast
  define s5 where "s5 = s4\<lparr>model := [''HW'' \<mapsto> ahw, ''HB'' \<mapsto> ahb, ''OW'' \<mapsto> aow, ''OB'' \<mapsto> aob]\<rparr>"
  have s5: "rebuild_model s4 = Inr s5"
    using e4 by (simp add: rebuild_model_def dict_of_def andthen_def s5_def)
  from l4 e4 obtain w1 w2 where w: "heap s4 ahw = Some w1" "heap s4 aow = Some w2"
    by (auto simp: lookup_def split: option.splits)
  have keys: "deref s5 (model s5) ''HW'' = Some w1" "deref s5 (model s5) ''OW'' = Some w2"
    using w by (simp_all add: deref_def s5_def)
  have len: "length Y = N" using Y by (simp add: valid_labels_def)
  have Y': "valid_labels Y (length Y) c" "0 < length Y" using Y dims len by simp_all
  obtain pt where pt: "predict (deref s5 (model s5)) Xt = Inr (Mat pt)" "has_shape pt (length Yt) ct"
    using ptest by blast
  obtain l1 where l1: "cross_entropy predict (deref s5 (model s5)) Xt Yt reg = Inr l1"
    using cross_entropy_returns[where predict = predict and X = Xt, OF keys pt Yt] by blast
  define s6 where "s6 = s5\<lparr>test_loss := test_loss s5 @ [l1]\<rparr>"
  have keys6: "deref s6 (model s6) ''HW'' = Some w1" "deref s6 (model s6) ''OW'' = Some w2"
    using keys by (auto simp: deref_def s6_def split: option.splits)
  obtain p where p: "predict (deref s6 (model s6)) (Mat (mat N d x)) = Inr (Mat p)"
      "has_shape p (length Y) c"
    using ptrain len by blast
  obtain l2 where l2: "cross_entropy predict (deref s6 (model s6)) (Mat (mat N d x)) Y reg = Inr l2"
    using cross_entropy_returns[where predict = predict and X = "Mat (mat N d x)", OF keys6 p Y']
    by blast
  have "record_losses predict (Mat (mat N d x)) Y Xt Yt reg s5 = Inr (s6\<lparr>train_loss := train_loss s6 @ [l2]\<rparr>)"
    using l1 l2 by (simp add: record_losses_def andthen_def Let_def s6_def)
  then show ?thesis
    using st s5 by (simp add: epoch_def andthen_def)
qed

lemma epochs_loop_returns:
  assumes dims: "0 < N" "0 < d" "0 < h" "0 < c"
    and Y: "valid_labels Y N c"
    and Yt: "valid_labels Yt (length Yt) ct" "0 < length Yt"
    and ptrain: "\<forall>m. \<exists>p. predict m (Mat (mat N d x)) = Inr (Mat p) \<and> has_shape p N c"
    and ptest: "\<forall>m. \<exists>p. predict m Xt = Inr (Mat p) \<and> has_shape p (length Yt) ct"
  shows "epoch_ready d h c s \<Longrightarrow> \<exists>s'. epochs_loop k predict (Mat (mat N d x)) Y Xt Yt lr reg s = Inr s'"
proof (induction k arbitrary: s)
  case 0
  then show ?case by simp
next
  case (Suc k)
  from epoch_returns[OF Suc.prems dims Y Yt ptrain ptest, where lr = lr and reg = reg]
  obtain s1 where s1: "epoch predict (Mat (mat N d x)) Y Xt Yt lr reg s = Inr s1" by blast
  have "epoch_ready d h c s1" by (rule epoch_ready_epoch[OF Suc.prems dims Y s1])
  from Suc.IH[OF this] show ?case using s1 by (simp add: andthen_def)
qed

text \<open>With such a \<open>predict\<close> the training loop reaches every epoch.\<close>

lemma every_epoch_is_reached:
  assumes ws: "well_shaped R1 R2 X Y N d h c"
    and Yt: "valid_labels Yt (length Yt) ct" "0 < length Yt"
    and ptrain: "\<forall>m. \<exists>p. predict m (Mat X) = Inr (Mat p) \<and> has_shape p N c"
    and ptest: "\<forall>m. \<exists>p. predict m Xt = Inr (Mat p) \<and> has_shape p (length Yt) ct"
  shows "\<exists>s. after_epochs predict R1 R2 X Y Xt Yt d h c lr reg k s"
proof -
  note m = well_shaped_mat[OF ws]
  define x where "x = entry X"
  have X: "X = mat N d x" unfolding x_def by (rule m(3))
  obtain s0 where s0: "initialize (Mat (mat d h (entry R1))) (Mat (mat h c (entry R2))) d h c = Inr s0"
    using initialize_state[OF m(6,7)] by blast
  have r0: "epoch_ready d h c s0" by (rule epoch_ready_initialize[OF m(6,7) s0])
  have pt: "\<forall>m. \<exists>p. predict m (Mat (mat N d x)) = Inr (Mat p) \<and> has_shape p N c"
    using ptrain unfolding X .
  from epochs_loop_returns[OF m(5-8) m(4) Yt pt ptest r0, where k = k and lr = lr and reg = reg]
  obtain s where "epochs_loop k predict (Mat (mat N d x)) Y Xt Yt lr reg s0 = Inr s" by blast
  then have "epochs_loop k predict (Mat X) Y Xt Yt lr reg s0 = Inr s" unfolding X .
  moreover have "initialize (Mat R1) (Mat R2) d h c = Inr s0"
    using s0 m(1,2) by metis
  ultimately show ?thesis unfolding after_epochs_def by blast
qed

lemma example_run:
  "\<exists>s. after_epochs (\<lambda>m x. Inr (Mat [[1 / 2, 1 / 2], [1 / 2, 1 / 2]]))
        [[1, 2, 3], [4, 5, 6]] [[1, 2], [3, 4], [5, 6]] [[1, 2], [3, 4]] [0, 1] (Mat [[5, 6], [7, 8]]) [1, 0] 2 3 2 lr reg k s"
  by (rule every_epoch_is_reached[OF example_shapes, where ct = 2])
     (simp_all add: valid_labels_def has_shape_def)

section \<open>The keys of the model dictionary\<close>

lemma rebuild_model_keys:
  assumes "rebuild_model s = Inr s'"
  shows "dom (model s') = {''HW'', ''HB'', ''OW'', ''OB''}"
  using assms
  by (auto simp: rebuild_model_def dict_of_def andthen_def split: option.splits if_splits)

text \<open>
  C8. The dictionary rebuilt after an epoch's weight update has the keys \<^verbatim>\<open>HW\<close>, \<^verbatim>\<open>HB\<close>,
  \<^verbatim>\<open>OW\<close>, \<^verbatim>\<open>OB\<close>, but the dictionary built at initialization has the key \<^verbatim>\<open>Hb\<close> in place
  of \<^verbatim>\<open>HB\<close>: with the default dimensions (two inputs, three hidden units, two classes)
  the initial dictionary has the key set \<open>{HW, Hb, OW, OB}\<close> and no key \<^verbatim>\<open>HB\<close>, while
  rebuilding the dictionary in that same state gives \<open>{HW, HB, OW, OB}\<close>.
\<close>

theorem initial_model_keys:
  "\<exists>s s'. initialize (Mat [[1, 2, 3], [4, 5, 6]]) (Mat [[1, 2], [3, 4], [5, 6]]) 2 3 2 = Inr s \<and>
     dom (model s) = {''HW'', ''Hb'', ''OW'', ''OB''} \<and> ''HB'' \<notin> dom (model s) \<and>
     rebuild_model s = Inr s' \<and> dom (model s') = {''HW'', ''HB'', ''OW'', ''OB''}"
  by (simp add: initialize_def rebuild_model_def andthen_def np_div_def broadcast.simps
      np_map.simps assign_def empty_state_def dict_of_def np_zeros_def Let_def insert_commute)

section \<open>The forward pass and the aliasing of its result\<close>

lemma softmax_mat:
  "0 < r \<Longrightarrow> softmax (Mat (mat r c z)) = Inr (Mat (mat r c (normalized_exp c z)))"
  by (simp add: softmax_def np_exp_def np_map_mat sum_axis1_mat andthen_def np_div_def
      broadcast_col normalized_exp_def[abs_def] Let_def)


text \<open>
  C1. In every epoch of the training loop the forward pass is that of a two-layer
  perceptron: in the state \<open>s\<close> reached after any number \<open>k\<close> of epochs, with the parameter
  arrays \<open>hw\<close>, \<open>hb\<close>, \<open>ow\<close>, \<open>ob\<close> the four variables then hold, \<open>forward_propagation\<close>
  returns, \<open>hidden_activations\<close> is \<open>tanh (X \<cdot> hw + hb)\<close> entry by entry, \<open>output_values\<close> is
  \<open>hidden_activations \<cdot> ow + ob\<close>, and \<open>probs\<close> is \<open>softmax\<close> of \<open>output_values\<close>, which is
  the row-wise normalized exponential.
\<close>

theorem forward_pass_computed:
  assumes ws: "well_shaped R1 R2 X Y N d h c"
    and ae: "after_epochs predict R1 R2 X Y Xt Yt d h c lr reg k s"
  shows "\<exists>hw hb ow ob s1 ov.
      lookup s hidden_weights = Inr (Mat (mat d h hw)) \<and>
      lookup s hidden_bias = Inr (Mat (mat 1 h hb)) \<and>
      lookup s output_weights = Inr (Mat (mat h c ow)) \<and>
      lookup s output_bias = Inr (Mat (mat 1 c ob)) \<and>
      forward_propagation (Mat X) s = Inr s1 \<and>
      lookup s1 hidden_activations = Inr (Mat (mat N h (hidden_act d (entry X) hw hb))) \<and>
      ov = Mat (mat N c (layer h (hidden_act d (entry X) hw hb) ow ob)) \<and>
      lookup s1 output_values = Inr ov \<and>
      softmax ov = Inr (Mat (mat N c (normalized_exp c (layer h (hidden_act d (entry X) hw hb) ow ob)))) \<and>
      lookup s1 probs = Inr (Mat (mat N c (probability d h c (entry X) hw hb ow ob)))"
proof -
  note m = well_shaped_mat[OF ws]
  define x where "x = entry X"
  have X: "Mat X = Mat (mat N d x)" unfolding x_def using m(3) by (rule arg_cong)
  from after_epochs_ready[OF ws ae] obtain ahw ahb aow aob hw hb ow ob where
    e: "env s hidden_weights = Some ahw" "env s hidden_bias = Some ahb"
       "env s output_weights = Some aow" "env s output_bias = Some aob"
    and hp: "heap s ahw = Some (Mat (mat d h hw))" "heap s ahb = Some (Mat (mat (Suc 0) h hb))"
       "heap s aow = Some (Mat (mat h c ow))" "heap s aob = Some (Mat (mat (Suc 0) c ob))"
    and lt: "ahw < fresh s" "ahb < fresh s" "aow < fresh s" "aob < fresh s"
    unfolding epoch_ready_def by blast
  note fs = forward_state[OF e hp lt m(5-8), of x]
  show ?thesis
    unfolding x_def[symmetric] X fs
    apply (rule exI[of _ hw], rule exI[of _ hb], rule exI[of _ ow], rule exI[of _ ob])
    using e hp lt m(5)
    apply (simp add: lookup_def softmax_mat probability_def[abs_def])
    done
qed

theorem forward_pass_computed_witness:
  "well_shaped [[1, 2, 3], [4, 5, 6]] [[1, 2], [3, 4], [5, 6]] [[1, 2], [3, 4]] [0, 1] 2 2 3 2 \<and>
   (\<exists>s. after_epochs (\<lambda>m x. Inr (Mat [[1 / 2, 1 / 2], [1 / 2, 1 / 2]]))
        [[1, 2, 3], [4, 5, 6]] [[1, 2], [3, 4], [5, 6]] [[1, 2], [3, 4]] [0, 1] (Mat [[5, 6], [7, 8]]) [1, 0] 2 3 2 (1 / 100) (1 / 100) 2 s \<and>
     (\<exists>hw hb ow ob s1.
        lookup s hidden_weights = Inr (Mat (mat 2 3 hw)) \<and>
        lookup s hidden_bias = Inr (Mat (mat 1 3 hb)) \<and>
        lookup s output_weights = Inr (Mat (mat 3 2 ow)) \<and>
        lookup s output_bias = Inr (Mat (mat 1 2 ob)) \<and>
        forward_propagation (Mat [[1, 2], [3, 4]]) s = Inr s1 \<and>
        lookup s1 hidden_activations = Inr (Mat (mat 2 3 (hidden_act 2 (entry [[1, 2], [3, 4]]) hw hb))) \<and>
        lookup s1 probs = Inr (Mat (mat 2 2 (probability 2 3 2 (entry [[1, 2], [3, 4]]) hw hb ow ob)))))"
proof -
  obtain s where ae: "after_epochs (\<lambda>m x. Inr (Mat [[1 / 2, 1 / 2], [1 / 2, 1 / 2]]))
        [[1, 2, 3], [4, 5, 6]] [[1, 2], [3, 4], [5, 6]] [[1, 2], [3, 4]] [0, 1] (Mat [[5, 6], [7, 8]]) [1, 0] 2 3 2 (1 / 100) (1 / 100) 2 s"
    using example_run by blast
  show ?thesis
    using example_shapes ae forward_pass_computed[OF example_shapes ae] by blast
qed

text \<open>
  C10. In every epoch \<^verbatim>\<open>output_delta = probs\<close> makes \<open>output_delta\<close> refer to the array
  \<open>probs\<close> refers to, so after the backward pass \<open>probs\<close> holds the forward-pass
  probabilities minus the one-hot encoding of the labels, and no longer the
  probabilities themselves.
\<close>

theorem output_delta_is_probs:
  assumes ws: "well_shaped R1 R2 X Y N d h c"
    and ae: "after_epochs predict R1 R2 X Y Xt Yt d h c lr reg k s"
  shows "\<exists>s1 s2 P.
      forward_propagation (Mat X) s = Inr s1 \<and>
      backpropagation (Mat X) Y s1 = Inr s2 \<and>
      lookup s1 probs = Inr (Mat (mat N c P)) \<and>
      env s2 output_delta = env s2 probs \<and> env s2 probs = env s1 probs \<and>
      env s2 probs \<noteq> None \<and>
      lookup s2 probs = Inr (Mat (mat N c (delta_out P Y))) \<and>
      lookup s2 output_delta = Inr (Mat (mat N c (delta_out P Y))) \<and>
      lookup s2 probs \<noteq> lookup s1 probs"
proof -
  note m = well_shaped_mat[OF ws]
  define x where "x = entry X"
  have X: "Mat X = Mat (mat N d x)" unfolding x_def using m(3) by (rule arg_cong)
  from after_epochs_ready[OF ws ae] obtain ahw ahb aow aob hw hb ow ob where
    e: "env s hidden_weights = Some ahw" "env s hidden_bias = Some ahb"
       "env s output_weights = Some aow" "env s output_bias = Some aob"
    and hp: "heap s ahw = Some (Mat (mat d h hw))" "heap s ahb = Some (Mat (mat (Suc 0) h hb))"
       "heap s aow = Some (Mat (mat h c ow))" "heap s aob = Some (Mat (mat (Suc 0) c ob))"
    and ne: "distinct [ahw, ahb, aow, aob]"
    and lt: "ahw < fresh s" "ahb < fresh s" "aow < fresh s" "aob < fresh s"
    unfolding epoch_ready_def by blast
  define P where "P = probability d h c x hw hb ow ob"
  note fs = forward_state[OF e hp lt m(5-8), of x]
  define s1 where "s1 = s\<lparr>
      env := (env s)(hidden_values \<mapsto> fresh s, hidden_activations \<mapsto> Suc (fresh s),
               output_values \<mapsto> Suc (Suc (fresh s)), probs \<mapsto> Suc (Suc (Suc (fresh s)))),
      heap := (heap s)(
        fresh s \<mapsto> Mat (mat N h (layer d x hw hb)),
        Suc (fresh s) \<mapsto> Mat (mat N h (hidden_act d x hw hb)),
        Suc (Suc (fresh s)) \<mapsto> Mat (mat N c (layer h (hidden_act d x hw hb) ow ob)),
        Suc (Suc (Suc (fresh s))) \<mapsto> Mat (mat N c P)),
      fresh := Suc (Suc (Suc (Suc (fresh s))))\<rparr>"
  have s1: "forward_propagation (Mat X) s = Inr s1"
    unfolding X s1_def P_def by (rule fs)
  note bs = backpropagation_state[where s = s1 and ap = "Suc (Suc (Suc (fresh s)))"
      and aa = "Suc (fresh s)" and aow = aow and N = N and c = c and p = P and h = h
      and a = "hidden_act d x hw hb" and ow = ow and d = d and Y = Y and x = x]
  have s2: "\<exists>s2. backpropagation (Mat X) Y s1 = Inr s2 \<and>
      env s2 output_delta = env s2 probs \<and> env s2 probs = env s1 probs \<and>
      env s2 probs \<noteq> None \<and>
      lookup s2 probs = Inr (Mat (mat N c (delta_out P Y))) \<and>
      lookup s2 output_delta = Inr (Mat (mat N c (delta_out P Y)))"
    unfolding X
    apply (subst bs)
    using e hp lt m(4-8) apply (simp_all add: s1_def lookup_def)
    done
  have l1: "lookup s1 probs = Inr (Mat (mat N c P))"
    by (simp add: s1_def lookup_def)
  have differ: "mat N c (delta_out P Y) \<noteq> mat N c P"
  proof
    assume eq: "mat N c (delta_out P Y) = mat N c P"
    have y: "nat (Y ! 0) < c" using valid_labels_nth[OF m(4) m(5)] by simp
    have "mat N c (delta_out P Y) ! 0 ! nat (Y ! 0) = mat N c P ! 0 ! nat (Y ! 0)"
      using eq by simp
    then show False using m(5) y by (simp add: mat_nth delta_out_def one_hot_def)
  qed
  from s2 obtain s2 where "backpropagation (Mat X) Y s1 = Inr s2 \<and>
      env s2 output_delta = env s2 probs \<and> env s2 probs = env s1 probs \<and>
      env s2 probs \<noteq> None \<and>
      lookup s2 probs = Inr (Mat (mat N c (delta_out P Y))) \<and>
      lookup s2 output_delta = Inr (Mat (mat N c (delta_out P Y)))" by blast
  moreover have "env s1 probs \<noteq> None" by (simp add: s1_def)
  ultimately show ?thesis
    using s1 l1 differ
    by - (rule exI[of _ s1], rule exI[of _ s2], rule exI[of _ P], auto)
qed

theorem output_delta_is_probs_witness:
  "well_shaped [[1, 2, 3], [4, 5, 6]] [[1, 2], [3, 4], [5, 6]] [[1, 2], [3, 4]] [0, 1] 2 2 3 2 \<and>
   (\<exists>s. after_epochs (\<lambda>m x. Inr (Mat [[1 / 2, 1 / 2], [1 / 2, 1 / 2]]))
        [[1, 2, 3], [4, 5, 6]] [[1, 2], [3, 4], [5, 6]] [[1, 2], [3, 4]] [0, 1] (Mat [[5, 6], [7, 8]]) [1, 0] 2 3 2 (1 / 100) (1 / 100) 2 s \<and>
     (\<exists>s1 s2 P.
        forward_propagation (Mat [[1, 2], [3, 4]]) s = Inr s1 \<and>
        backpropagation (Mat [[1, 2], [3, 4]]) [0, 1] s1 = Inr s2 \<and>
        lookup s1 probs = Inr (Mat (mat 2 2 P)) \<and>
        env s2 output_delta = env s2 probs \<and>
        lookup s2 probs = Inr (Mat (mat 2 2 (delta_out P [0, 1]))) \<and>
        lookup s2 probs \<noteq> lookup s1 probs))"
proof -
  obtain s where ae: "after_epochs (\<lambda>m x. Inr (Mat [[1 / 2, 1 / 2], [1 / 2, 1 / 2]]))
        [[1, 2, 3], [4, 5, 6]] [[1, 2], [3, 4], [5, 6]] [[1, 2], [3, 4]] [0, 1] (Mat [[5, 6], [7, 8]]) [1, 0] 2 3 2 (1 / 100) (1 / 100) 2 s"
    using example_run by blast
  show ?thesis
    using example_shapes ae output_delta_is_probs[OF example_shapes ae] by blast
qed

section \<open>The backward pass computes the gradient\<close>

lemma sum_exp_pos: "0 < (c::nat) \<Longrightarrow> 0 < (\<Sum>l<c. exp (f l :: real))"
  by (rule sum_pos) auto

lemma neg_log_softmax:
  assumes "y < (c::nat)"
  shows "- ln (exp (z y) / (\<Sum>l<c. exp (z l :: real))) = ln (\<Sum>l<c. exp (z l)) - z y"
proof -
  have "0 < (\<Sum>l<c. exp (z l))" using assms by (intro sum_exp_pos) auto
  then show ?thesis by (simp add: ln_div)
qed

lemma DERIV_log_sum_exp:
  assumes z: "\<And>l. l < c \<Longrightarrow> ((\<lambda>t. z t l) has_real_derivative z' l) (at t0)"
    and c: "0 < (c::nat)"
  shows "((\<lambda>t. ln (\<Sum>l<c. exp (z t l))) has_real_derivative
          (\<Sum>l<c. exp (z t0 l) * z' l) / (\<Sum>l<c. exp (z t0 l))) (at t0)"
proof -
  have pos: "0 < (\<Sum>l<c. exp (z t0 l))" by (rule sum_exp_pos[OF c])
  have "((\<lambda>t. \<Sum>l<c. exp (z t l)) has_real_derivative (\<Sum>l<c. exp (z t0 l) * z' l)) (at t0)"
    by (rule DERIV_sum) (auto intro!: derivative_eq_intros z)
  from DERIV_chain2[OF DERIV_ln_divide[OF pos] this] show ?thesis
    by simp
qed

text \<open>The derivative of the cross-entropy of one example along a curve of logits.\<close>

lemma DERIV_cross_entropy_example:
  assumes z: "\<And>l. l < c \<Longrightarrow> ((\<lambda>t. z t l) has_real_derivative z' l) (at t0)" and y: "y < (c::nat)"
  shows "((\<lambda>t. - ln (exp (z t y) / (\<Sum>l<c. exp (z t l)))) has_real_derivative
          (\<Sum>l<c. (exp (z t0 l) / (\<Sum>m<c. exp (z t0 m)) - (if l = y then 1 else 0)) * z' l)) (at t0)"
proof -
  have c: "0 < c" using y by simp
  have pos: "0 < (\<Sum>l<c. exp (z t0 l))" by (rule sum_exp_pos[OF c])
  have eq: "(\<lambda>t. - ln (exp (z t y) / (\<Sum>l<c. exp (z t l)))) = (\<lambda>t. ln (\<Sum>l<c. exp (z t l)) - z t y)"
    by (rule ext) (rule neg_log_softmax[OF y])
  have d: "((\<lambda>t. ln (\<Sum>l<c. exp (z t l)) - z t y) has_real_derivative
          (\<Sum>l<c. exp (z t0 l) * z' l) / (\<Sum>l<c. exp (z t0 l)) - z' y) (at t0)"
    by (intro DERIV_diff DERIV_log_sum_exp z c y)
  have "(\<Sum>l<c. (exp (z t0 l) / (\<Sum>m<c. exp (z t0 m)) - (if l = y then 1 else 0)) * z' l) =
        (\<Sum>l<c. exp (z t0 l) * z' l / (\<Sum>m<c. exp (z t0 m))) - (\<Sum>l<c. (if l = y then 1 else 0) * z' l)"
    by (simp add: left_diff_distrib sum_subtractf)
  also have "(\<Sum>l<c. (if l = y then 1 else 0) * z' l) = z' y"
    using y by (simp add: if_distrib[of "\<lambda>a. a * _"] sum.delta cong: if_cong)
  finally show ?thesis
    unfolding eq using d by (simp add: sum_divide_distrib)
qed

lemma DERIV_summed_cross_entropy:
  assumes z: "\<And>i l. i < N \<Longrightarrow> l < c \<Longrightarrow> ((\<lambda>t. z t i l) has_real_derivative z' i l) (at t0)"
    and y: "\<And>i. i < N \<Longrightarrow> y i < (c::nat)"
  shows "((\<lambda>t. \<Sum>i<N. - ln (normalized_exp c (z t) i (y i))) has_real_derivative
          (\<Sum>i<N. \<Sum>l<c. (normalized_exp c (z t0) i l - (if l = y i then 1 else 0)) * z' i l)) (at t0)"
  unfolding normalized_exp_def
  by (rule DERIV_sum) (auto intro!: DERIV_cross_entropy_example z y)

lemma DERIV_if_var:
  "((\<lambda>t. if P then t else (a::real)) has_real_derivative (if P then 1 else 0)) (at t0)"
  by (cases P) auto

lemma sum_single: "j < (n::nat) \<Longrightarrow> (\<Sum>k<n. if k = j then f k else (0::real)) = f j"
  by (simp add: sum.delta)

text \<open>The logits along a curve of pre-activations of the hidden layer.\<close>

lemma DERIV_logits_hidden:
  assumes u: "\<And>k. k < h \<Longrightarrow> ((\<lambda>t. u t k) has_real_derivative u' k) (at t0)"
  shows "((\<lambda>t. (\<Sum>k<h. tanh (u t k) * w k) + (b::real)) has_real_derivative
          (\<Sum>k<h. (1 - (tanh (u t0 k))\<^sup>2) * u' k * w k)) (at t0)"
proof -
  have "((\<lambda>t. \<Sum>k<h. tanh (u t k) * w k) has_real_derivative
          (\<Sum>k<h. (1 - (tanh (u t0 k))\<^sup>2) * u' k * w k)) (at t0)"
    by (rule DERIV_sum) (auto intro!: derivative_eq_intros u simp: cosh_real_nonzero)
  from DERIV_add[OF this DERIV_const[of b]] show ?thesis by simp
qed

lemma perturb_self: "perturb f k l (f k l) = f"
  by (auto simp: perturb_def fun_eq_iff)

text \<open>The derivative of the summed cross-entropy along a curve of parameters, from the
  derivatives of the logits.\<close>

lemma DERIV_loss_from_logits:
  assumes z: "\<And>i l. i < N \<Longrightarrow> l < c \<Longrightarrow>
      ((\<lambda>t. layer h (hidden_act d x (hwf t) (hbf t)) (owf t) (obf t) i l)
        has_real_derivative z' i l) (at t0)"
    and Y: "valid_labels Y N c"
    and at0: "hwf t0 = hw" "hbf t0 = hb" "owf t0 = ow" "obf t0 = ob"
  shows "((\<lambda>t. \<Sum>i<N. - ln (probability d h c x (hwf t) (hbf t) (owf t) (obf t) i (nat (Y ! i))))
          has_real_derivative
          (\<Sum>i<N. \<Sum>l<c. delta_out (probability d h c x hw hb ow ob) Y i l * z' i l)) (at t0)"
proof -
  have y: "\<And>i. i < N \<Longrightarrow> nat (Y ! i) < c" using valid_labels_nth[OF Y] by simp
  have "((\<lambda>t. \<Sum>i<N. - ln (normalized_exp c
            (layer h (hidden_act d x (hwf t) (hbf t)) (owf t) (obf t)) i (nat (Y ! i))))
          has_real_derivative
          (\<Sum>i<N. \<Sum>l<c. (normalized_exp c
              (layer h (hidden_act d x (hwf t0) (hbf t0)) (owf t0) (obf t0)) i l -
              (if l = nat (Y ! i) then 1 else 0)) * z' i l)) (at t0)"
    by (rule DERIV_summed_cross_entropy) (use z y in auto)
  then show ?thesis
    by (simp add: at0 probability_def[abs_def] delta_out_def one_hot_def)
qed

lemma grad_output_bias:
  assumes Y: "valid_labels Y N c" and l0: "l0 < c"
  shows "((\<lambda>t. \<Sum>i<N. - ln (probability d h c x hw hb ow (perturb ob 0 l0 t) i (nat (Y ! i))))
          has_real_derivative
          grad_ob N (delta_out (probability d h c x hw hb ow ob) Y) 0 l0) (at (ob 0 l0))"
proof -
  have z: "((\<lambda>t. layer h (hidden_act d x hw hb) ow (perturb ob 0 l0 t) i l)
        has_real_derivative (if l = l0 then 1 else 0)) (at (ob 0 l0))" for i l
    unfolding layer_def perturb_def
    by (cases "l = l0") (auto intro!: derivative_eq_intros)
  have "((\<lambda>t. \<Sum>i<N. - ln (probability d h c x hw hb ow (perturb ob 0 l0 t) i (nat (Y ! i))))
          has_real_derivative
          (\<Sum>i<N. \<Sum>l<c. delta_out (probability d h c x hw hb ow ob) Y i l *
             (if l = l0 then 1 else 0))) (at (ob 0 l0))"
    by (rule DERIV_loss_from_logits[where hwf = "\<lambda>t. hw" and hbf = "\<lambda>t. hb" and owf = "\<lambda>t. ow"])
       (use z Y in \<open>auto simp: perturb_self\<close>)
  moreover have "(\<Sum>l<c. delta_out (probability d h c x hw hb ow ob) Y i l *
             (if l = l0 then 1 else 0)) = delta_out (probability d h c x hw hb ow ob) Y i l0" for i
    using l0 by (simp add: if_distrib[of "\<lambda>a. _ * a"] sum.delta cong: if_cong)
  ultimately show ?thesis by (simp add: grad_ob_def)
qed

lemma grad_output_weights:
  assumes Y: "valid_labels Y N c" and l0: "l0 < c" and j0: "j0 < h"
  shows "((\<lambda>t. \<Sum>i<N. - ln (probability d h c x hw hb (perturb ow j0 l0 t) ob i (nat (Y ! i))))
          has_real_derivative
          grad_ow N (hidden_act d x hw hb) (delta_out (probability d h c x hw hb ow ob) Y) j0 l0)
          (at (ow j0 l0))"
proof -
  have s: "(\<Sum>k<h. hidden_act d x hw hb i k * (if k = j0 \<and> l = l0 then 1 else 0)) =
           (if l = l0 then hidden_act d x hw hb i j0 else 0)" for i l
    using j0 by (simp add: if_distrib[of "\<lambda>a. _ * a"] sum.delta cong: if_cong)
  have z: "((\<lambda>t. layer h (hidden_act d x hw hb) (perturb ow j0 l0 t) ob i l)
        has_real_derivative (if l = l0 then hidden_act d x hw hb i j0 else 0)) (at (ow j0 l0))" for i l
  proof -
    have "((\<lambda>t. (\<Sum>k<h. hidden_act d x hw hb i k * (if k = j0 \<and> l = l0 then t else ow k l)) + ob 0 l)
        has_real_derivative (\<Sum>k<h. hidden_act d x hw hb i k * (if k = j0 \<and> l = l0 then 1 else 0)) + 0)
        (at (ow j0 l0))"
      by (intro DERIV_add DERIV_sum DERIV_cmult DERIV_if_var DERIV_const)
    then show ?thesis by (simp add: layer_def perturb_def s)
  qed
  have "((\<lambda>t. \<Sum>i<N. - ln (probability d h c x hw hb (perturb ow j0 l0 t) ob i (nat (Y ! i))))
          has_real_derivative
          (\<Sum>i<N. \<Sum>l<c. delta_out (probability d h c x hw hb ow ob) Y i l *
             (if l = l0 then hidden_act d x hw hb i j0 else 0))) (at (ow j0 l0))"
    by (rule DERIV_loss_from_logits[where hwf = "\<lambda>t. hw" and hbf = "\<lambda>t. hb" and obf = "\<lambda>t. ob"])
       (use z Y in \<open>auto simp: perturb_self\<close>)
  moreover have "(\<Sum>l<c. delta_out (probability d h c x hw hb ow ob) Y i l *
             (if l = l0 then hidden_act d x hw hb i j0 else 0)) =
             hidden_act d x hw hb i j0 * delta_out (probability d h c x hw hb ow ob) Y i l0" for i
    using l0 by (simp add: if_distrib[of "\<lambda>a. _ * a"] sum.delta cong: if_cong)
  ultimately show ?thesis by (simp add: grad_ow_def)
qed

text \<open>Through the hidden layer: a curve of pre-activations that moves only unit \<open>j0\<close>.\<close>

lemma DERIV_loss_hidden:
  assumes u: "\<And>i k. i < N \<Longrightarrow> k < h \<Longrightarrow>
      ((\<lambda>t. layer d x (hwf t) (hbf t) i k) has_real_derivative (if k = j0 then g i else 0)) (at t0)"
    and Y: "valid_labels Y N c" and j0: "j0 < h"
    and at0: "hwf t0 = hw" "hbf t0 = hb"
  shows "((\<lambda>t. \<Sum>i<N. - ln (probability d h c x (hwf t) (hbf t) ow ob i (nat (Y ! i))))
          has_real_derivative
          (\<Sum>i<N. g i * delta_hidden c (delta_out (probability d h c x hw hb ow ob) Y) ow
                          (hidden_act d x hw hb) i j0)) (at t0)"
proof -
  have z: "((\<lambda>t. layer h (hidden_act d x (hwf t) (hbf t)) ow ob i l)
        has_real_derivative (1 - (hidden_act d x hw hb i j0)\<^sup>2) * g i * ow j0 l) (at t0)"
    if i: "i < N" for i l
  proof -
    have "((\<lambda>t. (\<Sum>k<h. tanh (layer d x (hwf t) (hbf t) i k) * ow k l) + ob 0 l)
        has_real_derivative
        (\<Sum>k<h. (1 - (tanh (layer d x (hwf t0) (hbf t0) i k))\<^sup>2) * (if k = j0 then g i else 0) * ow k l))
        (at t0)"
      by (rule DERIV_logits_hidden) (rule u[OF i])
    moreover have "(\<Sum>k<h. (1 - (tanh (layer d x (hwf t0) (hbf t0) i k))\<^sup>2) *
          (if k = j0 then g i else 0) * ow k l) =
          (1 - (hidden_act d x hw hb i j0)\<^sup>2) * g i * ow j0 l"
      using j0
      by (simp add: at0 hidden_act_def if_distrib[of "\<lambda>a. _ * a * _"] sum.delta cong: if_cong)
    ultimately show ?thesis by (simp add: layer_def[of h] hidden_act_def)
  qed
  have "((\<lambda>t. \<Sum>i<N. - ln (probability d h c x (hwf t) (hbf t) ow ob i (nat (Y ! i))))
          has_real_derivative
          (\<Sum>i<N. \<Sum>l<c. delta_out (probability d h c x hw hb ow ob) Y i l *
             ((1 - (hidden_act d x hw hb i j0)\<^sup>2) * g i * ow j0 l))) (at t0)"
    by (rule DERIV_loss_from_logits[where owf = "\<lambda>t. ow" and obf = "\<lambda>t. ob"])
       (use z Y at0 in auto)
  moreover have "(\<Sum>l<c. delta_out (probability d h c x hw hb ow ob) Y i l *
             ((1 - (hidden_act d x hw hb i j0)\<^sup>2) * g i * ow j0 l)) =
          g i * delta_hidden c (delta_out (probability d h c x hw hb ow ob) Y) ow
                          (hidden_act d x hw hb) i j0" for i
    by (simp add: delta_hidden_def sum_distrib_left sum_distrib_right mult_ac)
  ultimately show ?thesis by simp
qed

lemma grad_hidden_bias:
  assumes Y: "valid_labels Y N c" and j0: "j0 < h"
  shows "((\<lambda>t. \<Sum>i<N. - ln (probability d h c x hw (perturb hb 0 j0 t) ow ob i (nat (Y ! i))))
          has_real_derivative
          grad_hb N (delta_hidden c (delta_out (probability d h c x hw hb ow ob) Y) ow
                      (hidden_act d x hw hb)) j0) (at (hb 0 j0))"
proof -
  have u: "((\<lambda>t. layer d x hw (perturb hb 0 j0 t) i k) has_real_derivative
        (if k = j0 then 1 else 0)) (at (hb 0 j0))" for i k
    unfolding layer_def perturb_def
    by (cases "k = j0") (auto intro!: derivative_eq_intros)
  have "((\<lambda>t. \<Sum>i<N. - ln (probability d h c x hw (perturb hb 0 j0 t) ow ob i (nat (Y ! i))))
          has_real_derivative
          (\<Sum>i<N. 1 * delta_hidden c (delta_out (probability d h c x hw hb ow ob) Y) ow
                          (hidden_act d x hw hb) i j0)) (at (hb 0 j0))"
    by (rule DERIV_loss_hidden[where hwf = "\<lambda>t. hw" and g = "\<lambda>i. 1"])
       (use u Y j0 in \<open>auto simp: perturb_self\<close>)
  then show ?thesis by (simp add: grad_hb_def)
qed

lemma grad_hidden_weights:
  assumes Y: "valid_labels Y N c" and j0: "j0 < h" and k0: "k0 < d"
  shows "((\<lambda>t. \<Sum>i<N. - ln (probability d h c x (perturb hw k0 j0 t) hb ow ob i (nat (Y ! i))))
          has_real_derivative
          grad_hw N x (delta_hidden c (delta_out (probability d h c x hw hb ow ob) Y) ow
                      (hidden_act d x hw hb)) k0 j0) (at (hw k0 j0))"
proof -
  have s: "(\<Sum>m<d. x i m * (if m = k0 \<and> k = j0 then 1 else 0)) = (if k = j0 then x i k0 else 0)"
    for i k
    using k0 by (simp add: if_distrib[of "\<lambda>a. _ * a"] sum.delta cong: if_cong)
  have u: "((\<lambda>t. layer d x (perturb hw k0 j0 t) hb i k) has_real_derivative
        (if k = j0 then x i k0 else 0)) (at (hw k0 j0))" for i k
  proof -
    have "((\<lambda>t. (\<Sum>m<d. x i m * (if m = k0 \<and> k = j0 then t else hw m k)) + hb 0 k)
        has_real_derivative (\<Sum>m<d. x i m * (if m = k0 \<and> k = j0 then 1 else 0)) + 0)
        (at (hw k0 j0))"
      by (intro DERIV_add DERIV_sum DERIV_cmult DERIV_if_var DERIV_const)
    then show ?thesis by (simp add: layer_def perturb_def s)
  qed
  have "((\<lambda>t. \<Sum>i<N. - ln (probability d h c x (perturb hw k0 j0 t) hb ow ob i (nat (Y ! i))))
          has_real_derivative
          (\<Sum>i<N. x i k0 * delta_hidden c (delta_out (probability d h c x hw hb ow ob) Y) ow
                          (hidden_act d x hw hb) i j0)) (at (hw k0 j0))"
    by (rule DERIV_loss_hidden[where hbf = "\<lambda>t. hb" and g = "\<lambda>i. x i k0"])
       (use u Y j0 in \<open>auto simp: perturb_self\<close>)
  then show ?thesis by (simp add: grad_hw_def)
qed

lemma summed_cross_entropy_mat:
  assumes dims: "0 < N" "0 < d" "0 < h" "0 < c" and Y: "valid_labels Y N c"
  shows "summed_cross_entropy (Mat (mat N d x)) Y (Mat (mat d h hw)) (Mat (mat (Suc 0) h hb))
           (Mat (mat h c ow)) (Mat (mat (Suc 0) c ob)) =
         Inr (\<Sum>i<N. - ln (probability d h c x hw hb ow ob i (nat (Y ! i))))"
proof -
  define s where "s = parameter_state (Mat (mat d h hw)) (Mat (mat (Suc 0) h hb))
           (Mat (mat h c ow)) (Mat (mat (Suc 0) c ob))"
  have e: "env s hidden_weights = Some 0" "env s hidden_bias = Some (Suc 0)"
      "env s output_weights = Some (Suc (Suc 0))" "env s output_bias = Some (Suc (Suc (Suc 0)))"
    and hp: "heap s 0 = Some (Mat (mat d h hw))" "heap s (Suc 0) = Some (Mat (mat (Suc 0) h hb))"
      "heap s (Suc (Suc 0)) = Some (Mat (mat h c ow))"
      "heap s (Suc (Suc (Suc 0))) = Some (Mat (mat (Suc 0) c ob))"
    and lt: "0 < fresh s" "Suc 0 < fresh s" "Suc (Suc 0) < fresh s" "Suc (Suc (Suc 0)) < fresh s"
    by (simp_all add: s_def parameter_state_def assign_def empty_state_def)
  have len: "length Y = N" using Y by (simp add: valid_labels_def)
  have g: "getitem_range (Mat (mat N c (probability d h c x hw hb ow ob))) N Y =
      Inr (Vec (map (\<lambda>i. probability d h c x hw hb ow ob i (nat (Y ! i))) [0..<N]))"
    by (rule getitem_range_mat[OF dims(1) le_refl Y])
  show ?thesis
    unfolding summed_cross_entropy_def s_def[symmetric] forward_state[OF e hp lt dims]
    by (simp add: andthen_def lookup_def len g np_log_def np_neg_def np_map.simps
        sum_list_upt o_def)
qed

text \<open>
  C2. In every epoch the backward pass is standard backpropagation: \<open>output_delta\<close> is
  \<open>probs\<close> minus the one-hot encoding of the labels, \<open>hidden_delta\<close> is
  \<open>(output_delta \<cdot> output_weights\<^sup>T) \<odot> (1 - hidden_activations\<^sup>2)\<close>, and each entry of the
  four parameter deltas is the partial derivative, with respect to the matching entry
  of the parameter array, of the summed unregularized cross-entropy of the forward
  pass.
\<close>

theorem backward_pass_is_gradient:
  assumes ws: "well_shaped R1 R2 X Y N d h c"
    and ae: "after_epochs predict R1 R2 X Y Xt Yt d h c lr reg k s"
  shows "\<exists>hw hb ow ob s1 s2 A P OD HD dow dob dhw dhb.
      lookup s hidden_weights = Inr (Mat (mat d h hw)) \<and>
      lookup s hidden_bias = Inr (Mat (mat 1 h hb)) \<and>
      lookup s output_weights = Inr (Mat (mat h c ow)) \<and>
      lookup s output_bias = Inr (Mat (mat 1 c ob)) \<and>
      forward_propagation (Mat X) s = Inr s1 \<and>
      backpropagation (Mat X) Y s1 = Inr s2 \<and>
      lookup s1 hidden_activations = Inr (Mat (mat N h A)) \<and>
      lookup s1 probs = Inr (Mat (mat N c P)) \<and>
      lookup s2 output_delta = Inr (Mat (mat N c OD)) \<and>
      OD = (\<lambda>i j. P i j - one_hot Y i j) \<and>
      lookup s2 hidden_delta = Inr (Mat (mat N h HD)) \<and>
      HD = (\<lambda>i j. (\<Sum>l<c. OD i l * ow j l) * (1 - (A i j)\<^sup>2)) \<and>
      lookup s2 output_weights_delta = Inr (Mat (mat h c dow)) \<and>
      lookup s2 output_bias_delta = Inr (Mat (mat 1 c dob)) \<and>
      lookup s2 hidden_weights_delta = Inr (Mat (mat d h dhw)) \<and>
      lookup s2 hidden_bias_delta = Inr (Vec (map dhb [0..<h])) \<and>
      (\<forall>j<h. \<forall>l<c. \<exists>L.
         (\<forall>t. summed_cross_entropy (Mat X) Y (Mat (mat d h hw)) (Mat (mat 1 h hb))
                (Mat (mat h c (perturb ow j l t))) (Mat (mat 1 c ob)) = Inr (L t)) \<and>
         (L has_real_derivative dow j l) (at (ow j l))) \<and>
      (\<forall>l<c. \<exists>L.
         (\<forall>t. summed_cross_entropy (Mat X) Y (Mat (mat d h hw)) (Mat (mat 1 h hb))
                (Mat (mat h c ow)) (Mat (mat 1 c (perturb ob 0 l t))) = Inr (L t)) \<and>
         (L has_real_derivative dob 0 l) (at (ob 0 l))) \<and>
      (\<forall>i<d. \<forall>j<h. \<exists>L.
         (\<forall>t. summed_cross_entropy (Mat X) Y (Mat (mat d h (perturb hw i j t))) (Mat (mat 1 h hb))
                (Mat (mat h c ow)) (Mat (mat 1 c ob)) = Inr (L t)) \<and>
         (L has_real_derivative dhw i j) (at (hw i j))) \<and>
      (\<forall>j<h. \<exists>L.
         (\<forall>t. summed_cross_entropy (Mat X) Y (Mat (mat d h hw)) (Mat (mat 1 h (perturb hb 0 j t)))
                (Mat (mat h c ow)) (Mat (mat 1 c ob)) = Inr (L t)) \<and>
         (L has_real_derivative dhb j) (at (hb 0 j)))"
proof -
  note m = well_shaped_mat[OF ws]
  define x where "x = entry X"
  have X: "Mat X = Mat (mat N d x)" unfolding x_def using m(3) by (rule arg_cong)
  from after_epochs_ready[OF ws ae] obtain ahw ahb aow aob hw hb ow ob where
    e: "env s hidden_weights = Some ahw" "env s hidden_bias = Some ahb"
       "env s output_weights = Some aow" "env s output_bias = Some aob"
    and hp: "heap s ahw = Some (Mat (mat d h hw))" "heap s ahb = Some (Mat (mat (Suc 0) h hb))"
       "heap s aow = Some (Mat (mat h c ow))" "heap s aob = Some (Mat (mat (Suc 0) c ob))"
    and ne: "distinct [ahw, ahb, aow, aob]"
    and lt: "ahw < fresh s" "ahb < fresh s" "aow < fresh s" "aob < fresh s"
    unfolding epoch_ready_def by blast
  define A where "A = hidden_act d x hw hb"
  define P where "P = probability d h c x hw hb ow ob"
  define OD where "OD = delta_out P Y"
  define HD where "HD = delta_hidden c OD ow A"
  from epoch_steps[OF e hp ne lt m(5-8) m(4) A_def P_def OD_def HD_def, of 0 0]
  obtain s1 s2 where
    st: "forward_propagation (Mat X) s = Inr s1" "backpropagation (Mat X) Y s1 = Inr s2"
    and l1: "lookup s1 hidden_activations = Inr (Mat (mat N h A))"
      "lookup s1 probs = Inr (Mat (mat N c P))"
    and l2: "lookup s2 output_delta = Inr (Mat (mat N c OD))"
      "lookup s2 hidden_delta = Inr (Mat (mat N h HD))"
      "lookup s2 output_weights_delta = Inr (Mat (mat h c (grad_ow N A OD)))"
      "lookup s2 output_bias_delta = Inr (Mat (mat (Suc 0) c (grad_ob N OD)))"
      "lookup s2 hidden_weights_delta = Inr (Mat (mat d h (grad_hw N x HD)))"
      "lookup s2 hidden_bias_delta = Inr (Vec (map (grad_hb N HD) [0..<h]))"
    unfolding X by blast
  have ls: "lookup s hidden_weights = Inr (Mat (mat d h hw))"
    "lookup s hidden_bias = Inr (Mat (mat (Suc 0) h hb))"
    "lookup s output_weights = Inr (Mat (mat h c ow))"
    "lookup s output_bias = Inr (Mat (mat (Suc 0) c ob))"
    using e hp by (simp_all add: lookup_def)
  have od: "OD = (\<lambda>i j. P i j - one_hot Y i j)"
    by (simp add: OD_def delta_out_def[abs_def])
  have hd: "HD = (\<lambda>i j. (\<Sum>l<c. OD i l * ow j l) * (1 - (A i j)\<^sup>2))"
    by (simp add: HD_def delta_hidden_def[abs_def])
  note sce = summed_cross_entropy_mat[OF m(5-8) m(4), of x]
  have g_ow: "\<forall>j<h. \<forall>l<c. \<exists>L.
         (\<forall>t. summed_cross_entropy (Mat X) Y (Mat (mat d h hw)) (Mat (mat (Suc 0) h hb))
                (Mat (mat h c (perturb ow j l t))) (Mat (mat (Suc 0) c ob)) = Inr (L t)) \<and>
         (L has_real_derivative grad_ow N A OD j l) (at (ow j l))"
  proof (intro allI impI)
    fix j l assume j: "j < h" and l: "l < c"
    show "\<exists>L. (\<forall>t. summed_cross_entropy (Mat X) Y (Mat (mat d h hw)) (Mat (mat (Suc 0) h hb))
                (Mat (mat h c (perturb ow j l t))) (Mat (mat (Suc 0) c ob)) = Inr (L t)) \<and>
         (L has_real_derivative grad_ow N A OD j l) (at (ow j l))"
      unfolding X sce A_def OD_def P_def
      by (rule exI[of _ "\<lambda>t. \<Sum>i<N. - ln (probability d h c x hw hb (perturb ow j l t) ob i (nat (Y ! i)))"])
         (simp add: grad_output_weights[OF m(4) l j])
  qed
  have g_ob: "\<forall>l<c. \<exists>L.
         (\<forall>t. summed_cross_entropy (Mat X) Y (Mat (mat d h hw)) (Mat (mat (Suc 0) h hb))
                (Mat (mat h c ow)) (Mat (mat (Suc 0) c (perturb ob 0 l t))) = Inr (L t)) \<and>
         (L has_real_derivative grad_ob N OD 0 l) (at (ob 0 l))"
  proof (intro allI impI)
    fix l assume l: "l < c"
    show "\<exists>L. (\<forall>t. summed_cross_entropy (Mat X) Y (Mat (mat d h hw)) (Mat (mat (Suc 0) h hb))
                (Mat (mat h c ow)) (Mat (mat (Suc 0) c (perturb ob 0 l t))) = Inr (L t)) \<and>
         (L has_real_derivative grad_ob N OD 0 l) (at (ob 0 l))"
      unfolding X sce OD_def P_def
      by (rule exI[of _ "\<lambda>t. \<Sum>i<N. - ln (probability d h c x hw hb ow (perturb ob 0 l t) i (nat (Y ! i)))"])
         (simp add: grad_output_bias[OF m(4) l])
  qed
  have g_hw: "\<forall>i<d. \<forall>j<h. \<exists>L.
         (\<forall>t. summed_cross_entropy (Mat X) Y (Mat (mat d h (perturb hw i j t))) (Mat (mat (Suc 0) h hb))
                (Mat (mat h c ow)) (Mat (mat (Suc 0) c ob)) = Inr (L t)) \<and>
         (L has_real_derivative grad_hw N x HD i j) (at (hw i j))"
  proof (intro allI impI)
    fix i j assume i: "i < d" and j: "j < h"
    show "\<exists>L. (\<forall>t. summed_cross_entropy (Mat X) Y (Mat (mat d h (perturb hw i j t))) (Mat (mat (Suc 0) h hb))
                (Mat (mat h c ow)) (Mat (mat (Suc 0) c ob)) = Inr (L t)) \<and>
         (L has_real_derivative grad_hw N x HD i j) (at (hw i j))"
      unfolding X sce HD_def A_def OD_def P_def
      by (rule exI[of _ "\<lambda>t. \<Sum>n<N. - ln (probability d h c x (perturb hw i j t) hb ow ob n (nat (Y ! n)))"])
         (simp add: grad_hidden_weights[OF m(4) j i])
  qed
  have g_hb: "\<forall>j<h. \<exists>L.
         (\<forall>t. summed_cross_entropy (Mat X) Y (Mat (mat d h hw)) (Mat (mat (Suc 0) h (perturb hb 0 j t)))
                (Mat (mat h c ow)) (Mat (mat (Suc 0) c ob)) = Inr (L t)) \<and>
         (L has_real_derivative grad_hb N HD j) (at (hb 0 j))"
  proof (intro allI impI)
    fix j assume j: "j < h"
    show "\<exists>L. (\<forall>t. summed_cross_entropy (Mat X) Y (Mat (mat d h hw)) (Mat (mat (Suc 0) h (perturb hb 0 j t)))
                (Mat (mat h c ow)) (Mat (mat (Suc 0) c ob)) = Inr (L t)) \<and>
         (L has_real_derivative grad_hb N HD j) (at (hb 0 j))"
      unfolding X sce HD_def A_def OD_def P_def
      by (rule exI[of _ "\<lambda>t. \<Sum>i<N. - ln (probability d h c x hw (perturb hb 0 j t) ow ob i (nat (Y ! i)))"])
         (simp add: grad_hidden_bias[OF m(4) j])
  qed
  show ?thesis
    apply (rule exI[of _ hw], rule exI[of _ hb], rule exI[of _ ow], rule exI[of _ ob])
    apply (rule exI[of _ s1], rule exI[of _ s2], rule exI[of _ A], rule exI[of _ P])
    apply (rule exI[of _ OD], rule exI[of _ HD])
    apply (rule exI[of _ "grad_ow N A OD"], rule exI[of _ "grad_ob N OD"])
    apply (rule exI[of _ "grad_hw N x HD"], rule exI[of _ "grad_hb N HD"])
    unfolding One_nat_def
    apply (intro conjI ls st l1 l2 od hd g_ow g_ob g_hw g_hb)
    done
qed

theorem backward_pass_is_gradient_witness:
  "well_shaped [[1, 2, 3], [4, 5, 6]] [[1, 2], [3, 4], [5, 6]] [[1, 2], [3, 4]] [0, 1] 2 2 3 2 \<and>
   (\<exists>s. after_epochs (\<lambda>m x. Inr (Mat [[1 / 2, 1 / 2], [1 / 2, 1 / 2]]))
        [[1, 2, 3], [4, 5, 6]] [[1, 2], [3, 4], [5, 6]] [[1, 2], [3, 4]] [0, 1] (Mat [[5, 6], [7, 8]]) [1, 0] 2 3 2 (1 / 100) (1 / 100) 2 s \<and>
     (\<exists>hw hb ow ob s1 s2 dow L.
        lookup s hidden_weights = Inr (Mat (mat 2 3 hw)) \<and>
        lookup s hidden_bias = Inr (Mat (mat 1 3 hb)) \<and>
        lookup s output_weights = Inr (Mat (mat 3 2 ow)) \<and>
        lookup s output_bias = Inr (Mat (mat 1 2 ob)) \<and>
        forward_propagation (Mat [[1, 2], [3, 4]]) s = Inr s1 \<and>
        backpropagation (Mat [[1, 2], [3, 4]]) [0, 1] s1 = Inr s2 \<and>
        lookup s2 output_weights_delta = Inr (Mat (mat 3 2 dow)) \<and>
        (\<forall>t. summed_cross_entropy (Mat [[1, 2], [3, 4]]) [0, 1] (Mat (mat 2 3 hw)) (Mat (mat 1 3 hb))
                (Mat (mat 3 2 (perturb ow 0 0 t))) (Mat (mat 1 2 ob)) = Inr (L t)) \<and>
        (L has_real_derivative dow 0 0) (at (ow 0 0))))"
proof -
  obtain s where ae: "after_epochs (\<lambda>m x. Inr (Mat [[1 / 2, 1 / 2], [1 / 2, 1 / 2]]))
        [[1, 2, 3], [4, 5, 6]] [[1, 2], [3, 4], [5, 6]] [[1, 2], [3, 4]] [0, 1] (Mat [[5, 6], [7, 8]]) [1, 0] 2 3 2 (1 / 100) (1 / 100) 2 s"
    using example_run by blast
  from backward_pass_is_gradient[OF example_shapes ae]
  obtain hw hb ow ob s1 s2 A P OD HD dow dob dhw dhb where
    f: "lookup s hidden_weights = Inr (Mat (mat 2 3 hw))"
       "lookup s hidden_bias = Inr (Mat (mat 1 3 hb))"
       "lookup s output_weights = Inr (Mat (mat 3 2 ow))"
       "lookup s output_bias = Inr (Mat (mat 1 2 ob))"
       "forward_propagation (Mat [[1, 2], [3, 4]]) s = Inr s1"
       "backpropagation (Mat [[1, 2], [3, 4]]) [0, 1] s1 = Inr s2"
       "lookup s2 output_weights_delta = Inr (Mat (mat 3 2 dow))"
    and g: "\<forall>j<3. \<forall>l<2. \<exists>L.
         (\<forall>t. summed_cross_entropy (Mat [[1, 2], [3, 4]]) [0, 1] (Mat (mat 2 3 hw)) (Mat (mat 1 3 hb))
                (Mat (mat 3 2 (perturb ow j l t))) (Mat (mat 1 2 ob)) = Inr (L t)) \<and>
         (L has_real_derivative dow j l) (at (ow j l))"
    by (elim exE conjE) (rule that)
  from g[rule_format, of 0 0] obtain L where
    L: "\<forall>t. summed_cross_entropy (Mat [[1, 2], [3, 4]]) [0, 1] (Mat (mat 2 3 hw)) (Mat (mat 1 3 hb))
                (Mat (mat 3 2 (perturb ow 0 0 t))) (Mat (mat 1 2 ob)) = Inr (L t)"
    "(L has_real_derivative dow 0 0) (at (ow 0 0))"
    by auto
  show ?thesis
    apply (rule conjI[OF example_shapes])
    apply (rule exI[of _ s], rule conjI[OF ae])
    apply (rule exI[of _ hw], rule exI[of _ hb], rule exI[of _ ow], rule exI[of _ ob])
    apply (rule exI[of _ s1], rule exI[of _ s2], rule exI[of _ dow], rule exI[of _ L])
    apply (intro conjI f L)
    done
qed

section \<open>Regularization and the gradient-descent update\<close>

text \<open>
  C5. In every epoch the regularization step adds \<open>regularization \<cdot> output_weights\<close> to
  \<open>output_weights_delta\<close> and \<open>regularization \<cdot> hidden_weights\<close> to
  \<open>hidden_weights_delta\<close>, in place; the two bias deltas, and every other array, are
  left as they were.
\<close>

theorem regularization_skips_biases:
  assumes ws: "well_shaped R1 R2 X Y N d h c"
    and ae: "after_epochs predict R1 R2 X Y Xt Yt d h c lr reg k s"
  shows "\<exists>s1 s2 s3 hw ow dhw dow.
      forward_propagation (Mat X) s = Inr s1 \<and>
      backpropagation (Mat X) Y s1 = Inr s2 \<and>
      add_regularization reg s2 = Inr s3 \<and>
      lookup s2 output_weights = Inr (Mat (mat h c ow)) \<and>
      lookup s2 hidden_weights = Inr (Mat (mat d h hw)) \<and>
      lookup s2 output_weights_delta = Inr (Mat (mat h c dow)) \<and>
      lookup s2 hidden_weights_delta = Inr (Mat (mat d h dhw)) \<and>
      lookup s3 output_weights_delta = Inr (Mat (mat h c (\<lambda>i j. dow i j + reg * ow i j))) \<and>
      lookup s3 hidden_weights_delta = Inr (Mat (mat d h (\<lambda>i j. dhw i j + reg * hw i j))) \<and>
      lookup s3 output_bias_delta = lookup s2 output_bias_delta \<and>
      lookup s3 hidden_bias_delta = lookup s2 hidden_bias_delta \<and>
      (\<exists>v. lookup s2 output_bias_delta = Inr v) \<and> (\<exists>v. lookup s2 hidden_bias_delta = Inr v) \<and>
      env s3 = env s2 \<and>
      (\<forall>a. env s2 output_weights_delta \<noteq> Some a \<and> env s2 hidden_weights_delta \<noteq> Some a
           \<longrightarrow> heap s3 a = heap s2 a)"
proof -
  note m = well_shaped_mat[OF ws]
  define x where "x = entry X"
  have X: "Mat X = Mat (mat N d x)" unfolding x_def using m(3) by (rule arg_cong)
  from after_epochs_ready[OF ws ae] obtain ahw ahb aow aob hw hb ow ob where
    e: "env s hidden_weights = Some ahw" "env s hidden_bias = Some ahb"
       "env s output_weights = Some aow" "env s output_bias = Some aob"
    and hp: "heap s ahw = Some (Mat (mat d h hw))" "heap s ahb = Some (Mat (mat (Suc 0) h hb))"
       "heap s aow = Some (Mat (mat h c ow))" "heap s aob = Some (Mat (mat (Suc 0) c ob))"
    and ne: "distinct [ahw, ahb, aow, aob]"
    and lt: "ahw < fresh s" "ahb < fresh s" "aow < fresh s" "aob < fresh s"
    unfolding epoch_ready_def by blast
  from epoch_steps[OF e hp ne lt m(5-8) m(4) refl refl refl refl, of x reg lr]
  obtain s1 s2 s3 dow dhw where
    "forward_propagation (Mat X) s = Inr s1"
    "backpropagation (Mat X) Y s1 = Inr s2"
    "add_regularization reg s2 = Inr s3"
    "lookup s2 output_weights = Inr (Mat (mat h c ow))"
    "lookup s2 hidden_weights = Inr (Mat (mat d h hw))"
    "lookup s2 output_weights_delta = Inr (Mat (mat h c dow))"
    "lookup s2 hidden_weights_delta = Inr (Mat (mat d h dhw))"
    "lookup s3 output_weights_delta = Inr (Mat (mat h c (\<lambda>i j. dow i j + reg * ow i j)))"
    "lookup s3 hidden_weights_delta = Inr (Mat (mat d h (\<lambda>i j. dhw i j + reg * hw i j)))"
    "lookup s3 output_bias_delta = lookup s2 output_bias_delta"
    "lookup s3 hidden_bias_delta = lookup s2 hidden_bias_delta"
    "\<exists>v. lookup s2 output_bias_delta = Inr v" "\<exists>v. lookup s2 hidden_bias_delta = Inr v"
    "env s3 = env s2"
    "\<forall>a. env s2 output_weights_delta \<noteq> Some a \<and> env s2 hidden_weights_delta \<noteq> Some a
           \<longrightarrow> heap s3 a = heap s2 a"
    unfolding X by blast
  then show ?thesis by blast
qed

theorem regularization_skips_biases_witness:
  "well_shaped [[1, 2, 3], [4, 5, 6]] [[1, 2], [3, 4], [5, 6]] [[1, 2], [3, 4]] [0, 1] 2 2 3 2 \<and>
   (\<exists>s. after_epochs (\<lambda>m x. Inr (Mat [[1 / 2, 1 / 2], [1 / 2, 1 / 2]]))
        [[1, 2, 3], [4, 5, 6]] [[1, 2], [3, 4], [5, 6]] [[1, 2], [3, 4]] [0, 1] (Mat [[5, 6], [7, 8]]) [1, 0] 2 3 2 (1 / 100) (1 / 2) 2 s \<and>
     (\<exists>s1 s2 s3 hw ow dhw dow.
        forward_propagation (Mat [[1, 2], [3, 4]]) s = Inr s1 \<and>
        backpropagation (Mat [[1, 2], [3, 4]]) [0, 1] s1 = Inr s2 \<and>
        add_regularization (1 / 2) s2 = Inr s3 \<and>
        lookup s2 output_weights = Inr (Mat (mat 3 2 ow)) \<and>
        lookup s2 hidden_weights = Inr (Mat (mat 2 3 hw)) \<and>
        lookup s2 output_weights_delta = Inr (Mat (mat 3 2 dow)) \<and>
        lookup s2 hidden_weights_delta = Inr (Mat (mat 2 3 dhw)) \<and>
        lookup s3 output_weights_delta = Inr (Mat (mat 3 2 (\<lambda>i j. dow i j + 1 / 2 * ow i j))) \<and>
        lookup s3 hidden_weights_delta = Inr (Mat (mat 2 3 (\<lambda>i j. dhw i j + 1 / 2 * hw i j))) \<and>
        lookup s3 output_bias_delta = lookup s2 output_bias_delta \<and>
        lookup s3 hidden_bias_delta = lookup s2 hidden_bias_delta))"
proof -
  obtain s where ae: "after_epochs (\<lambda>m x. Inr (Mat [[1 / 2, 1 / 2], [1 / 2, 1 / 2]]))
        [[1, 2, 3], [4, 5, 6]] [[1, 2], [3, 4], [5, 6]] [[1, 2], [3, 4]] [0, 1] (Mat [[5, 6], [7, 8]]) [1, 0] 2 3 2 (1 / 100) (1 / 2) 2 s"
    using example_run by blast
  show ?thesis
    using example_shapes ae regularization_skips_biases[OF example_shapes ae] by blast
qed

text \<open>
  C3. In every epoch the update step changes each of the four parameter arrays in place
  to its previous value minus \<open>learning_rate\<close> times its delta (the one-dimensional
  \<open>hidden_bias_delta\<close> is broadcast along the one row of \<open>hidden_bias\<close>); the variables
  refer to the same arrays as before, and no other array is changed.
\<close>

theorem gradient_descent_update:
  assumes ws: "well_shaped R1 R2 X Y N d h c"
    and ae: "after_epochs predict R1 R2 X Y Xt Yt d h c lr reg k s"
  shows "\<exists>s1 s2 s3 s4 hw hb ow ob dhw dhb dow dob.
      forward_propagation (Mat X) s = Inr s1 \<and>
      backpropagation (Mat X) Y s1 = Inr s2 \<and>
      add_regularization reg s2 = Inr s3 \<and>
      update_weights lr s3 = Inr s4 \<and>
      lookup s3 output_weights = Inr (Mat (mat h c ow)) \<and>
      lookup s3 output_bias = Inr (Mat (mat 1 c ob)) \<and>
      lookup s3 hidden_weights = Inr (Mat (mat d h hw)) \<and>
      lookup s3 hidden_bias = Inr (Mat (mat 1 h hb)) \<and>
      lookup s3 output_weights_delta = Inr (Mat (mat h c dow)) \<and>
      lookup s3 output_bias_delta = Inr (Mat (mat 1 c dob)) \<and>
      lookup s3 hidden_weights_delta = Inr (Mat (mat d h dhw)) \<and>
      lookup s3 hidden_bias_delta = Inr (Vec (map dhb [0..<h])) \<and>
      lookup s4 output_weights = Inr (Mat (mat h c (\<lambda>i j. ow i j - lr * dow i j))) \<and>
      lookup s4 output_bias = Inr (Mat (mat 1 c (\<lambda>i j. ob i j - lr * dob i j))) \<and>
      lookup s4 hidden_weights = Inr (Mat (mat d h (\<lambda>i j. hw i j - lr * dhw i j))) \<and>
      lookup s4 hidden_bias = Inr (Mat (mat 1 h (\<lambda>i j. hb i j - lr * dhb j))) \<and>
      env s4 = env s3 \<and>
      (\<forall>a. env s3 output_weights \<noteq> Some a \<and> env s3 output_bias \<noteq> Some a \<and>
           env s3 hidden_weights \<noteq> Some a \<and> env s3 hidden_bias \<noteq> Some a
           \<longrightarrow> heap s4 a = heap s3 a)"
proof -
  note m = well_shaped_mat[OF ws]
  define x where "x = entry X"
  have X: "Mat X = Mat (mat N d x)" unfolding x_def using m(3) by (rule arg_cong)
  from after_epochs_ready[OF ws ae] obtain ahw ahb aow aob hw hb ow ob where
    e: "env s hidden_weights = Some ahw" "env s hidden_bias = Some ahb"
       "env s output_weights = Some aow" "env s output_bias = Some aob"
    and hp: "heap s ahw = Some (Mat (mat d h hw))" "heap s ahb = Some (Mat (mat (Suc 0) h hb))"
       "heap s aow = Some (Mat (mat h c ow))" "heap s aob = Some (Mat (mat (Suc 0) c ob))"
    and ne: "distinct [ahw, ahb, aow, aob]"
    and lt: "ahw < fresh s" "ahb < fresh s" "aow < fresh s" "aob < fresh s"
    unfolding epoch_ready_def by blast
  define A where "A = hidden_act d x hw hb"
  define P where "P = probability d h c x hw hb ow ob"
  define OD where "OD = delta_out P Y"
  define HD where "HD = delta_hidden c OD ow A"
  from epoch_steps[OF e hp ne lt m(5-8) m(4) A_def P_def OD_def HD_def, of reg lr]
  obtain s1 s2 s3 s4 where
    st: "forward_propagation (Mat X) s = Inr s1"
    "backpropagation (Mat X) Y s1 = Inr s2"
    "add_regularization reg s2 = Inr s3"
    "update_weights lr s3 = Inr s4"
    and l3: "lookup s3 output_weights = Inr (Mat (mat h c ow))"
    "lookup s3 output_bias = Inr (Mat (mat (Suc 0) c ob))"
    "lookup s3 hidden_weights = Inr (Mat (mat d h hw))"
    "lookup s3 hidden_bias = Inr (Mat (mat (Suc 0) h hb))"
    and d3: "lookup s3 output_weights_delta = Inr (Mat (mat h c (\<lambda>i j. grad_ow N A OD i j + reg * ow i j)))"
    "lookup s3 output_bias_delta = lookup s2 output_bias_delta"
    "lookup s2 output_bias_delta = Inr (Mat (mat (Suc 0) c (grad_ob N OD)))"
    "lookup s3 hidden_weights_delta = Inr (Mat (mat d h (\<lambda>i j. grad_hw N x HD i j + reg * hw i j)))"
    "lookup s3 hidden_bias_delta = lookup s2 hidden_bias_delta"
    "lookup s2 hidden_bias_delta = Inr (Vec (map (grad_hb N HD) [0..<h]))"
    and l4: "lookup s4 output_weights =
        Inr (Mat (mat h c (\<lambda>i j. ow i j - lr * (grad_ow N A OD i j + reg * ow i j))))"
    "lookup s4 output_bias = Inr (Mat (mat (Suc 0) c (\<lambda>i j. ob i j - lr * grad_ob N OD i j)))"
    "lookup s4 hidden_weights =
        Inr (Mat (mat d h (\<lambda>i j. hw i j - lr * (grad_hw N x HD i j + reg * hw i j))))"
    "lookup s4 hidden_bias = Inr (Mat (mat (Suc 0) h (\<lambda>i j. hb i j - lr * grad_hb N HD j)))"
    and fr: "env s4 = env s3"
    "\<forall>a. a \<notin> {ahw, ahb, aow, aob} \<longrightarrow> heap s4 a = heap s3 a"
    "env s4 hidden_weights = Some ahw" "env s4 hidden_bias = Some ahb"
    "env s4 output_weights = Some aow" "env s4 output_bias = Some aob"
    unfolding X by blast
  have frame: "\<forall>a. env s3 output_weights \<noteq> Some a \<and> env s3 output_bias \<noteq> Some a \<and>
           env s3 hidden_weights \<noteq> Some a \<and> env s3 hidden_bias \<noteq> Some a
           \<longrightarrow> heap s4 a = heap s3 a"
    using fr by auto
  show ?thesis
    apply (rule exI[of _ s1], rule exI[of _ s2], rule exI[of _ s3], rule exI[of _ s4])
    apply (rule exI[of _ hw], rule exI[of _ hb], rule exI[of _ ow], rule exI[of _ ob])
    apply (rule exI[of _ "\<lambda>i j. grad_hw N x HD i j + reg * hw i j"])
    apply (rule exI[of _ "grad_hb N HD"])
    apply (rule exI[of _ "\<lambda>i j. grad_ow N A OD i j + reg * ow i j"])
    apply (rule exI[of _ "grad_ob N OD"])
    using st l3 d3 l4 fr(1) frame apply simp
    done
qed

theorem gradient_descent_update_witness:
  "well_shaped [[1, 2, 3], [4, 5, 6]] [[1, 2], [3, 4], [5, 6]] [[1, 2], [3, 4]] [0, 1] 2 2 3 2 \<and>
   (\<exists>s. after_epochs (\<lambda>m x. Inr (Mat [[1 / 2, 1 / 2], [1 / 2, 1 / 2]]))
        [[1, 2, 3], [4, 5, 6]] [[1, 2], [3, 4], [5, 6]] [[1, 2], [3, 4]] [0, 1] (Mat [[5, 6], [7, 8]]) [1, 0] 2 3 2 (1 / 10) (1 / 2) 2 s \<and>
     (\<exists>s1 s2 s3 s4 hw hb ow ob dhw dhb dow dob.
        forward_propagation (Mat [[1, 2], [3, 4]]) s = Inr s1 \<and>
        backpropagation (Mat [[1, 2], [3, 4]]) [0, 1] s1 = Inr s2 \<and>
        add_regularization (1 / 2) s2 = Inr s3 \<and>
        update_weights (1 / 10) s3 = Inr s4 \<and>
        lookup s3 output_weights = Inr (Mat (mat 3 2 ow)) \<and>
        lookup s3 output_bias = Inr (Mat (mat 1 2 ob)) \<and>
        lookup s3 hidden_weights = Inr (Mat (mat 2 3 hw)) \<and>
        lookup s3 hidden_bias = Inr (Mat (mat 1 3 hb)) \<and>
        lookup s3 output_weights_delta = Inr (Mat (mat 3 2 dow)) \<and>
        lookup s3 output_bias_delta = Inr (Mat (mat 1 2 dob)) \<and>
        lookup s3 hidden_weights_delta = Inr (Mat (mat 2 3 dhw)) \<and>
        lookup s3 hidden_bias_delta = Inr (Vec (map dhb [0..<3])) \<and>
        lookup s4 output_weights = Inr (Mat (mat 3 2 (\<lambda>i j. ow i j - 1 / 10 * dow i j))) \<and>
        lookup s4 output_bias = Inr (Mat (mat 1 2 (\<lambda>i j. ob i j - 1 / 10 * dob i j))) \<and>
        lookup s4 hidden_weights = Inr (Mat (mat 2 3 (\<lambda>i j. hw i j - 1 / 10 * dhw i j))) \<and>
        lookup s4 hidden_bias = Inr (Mat (mat 1 3 (\<lambda>i j. hb i j - 1 / 10 * dhb j))) \<and>
        env s4 = env s3))"
proof -
  obtain s where ae: "after_epochs (\<lambda>m x. Inr (Mat [[1 / 2, 1 / 2], [1 / 2, 1 / 2]]))
        [[1, 2, 3], [4, 5, 6]] [[1, 2], [3, 4], [5, 6]] [[1, 2], [3, 4]] [0, 1] (Mat [[5, 6], [7, 8]]) [1, 0] 2 3 2 (1 / 10) (1 / 2) 2 s"
    using example_run by blast
  show ?thesis
    using example_shapes ae gradient_descent_update[OF example_shapes ae] by blast
qed

section \<open>The softmax and the cost function\<close>






lemma sum_list_rows: "sum_list (map (sum_list \<circ> map f) A) = sum_list (map f (concat A))"
  by (induction A) simp_all

lemma np_sum_square: "np_sum (np_square a) = sum_of_squares a"
  by (cases a)
     (simp_all add: np_square_def np_map.simps sum_of_squares_def power2_eq_square
        sum_list_rows)

text \<open>
  C4. When the model has the keys \<^verbatim>\<open>HW\<close> and \<^verbatim>\<open>OW\<close>, \<open>predict\<close> returns a probability
  matrix \<open>p\<close> with one row for each of the \<open>len(Y) > 0\<close> examples and the labels are
  column indices of \<open>p\<close>, \<open>cross_entropy\<close> returns \<open>1 / len(Y)\<close> times the sum of the
  \<open>- log p[i, Y[i]]\<close> plus \<open>regularization / 2\<close> times the sum of the squares of both
  weight arrays: the regularization term is divided by the number of examples too.
\<close>

theorem cross_entropy_value:
  assumes hw: "mdl ''HW'' = Some hw" and ow: "mdl ''OW'' = Some ow"
    and p: "predict mdl X = Inr (Mat p)" and sh: "has_shape p (length Y) c"
    and Y: "valid_labels Y (length Y) c" and n: "0 < length Y"
  shows "cross_entropy predict mdl X Y regularization =
     Inr (1 / real (length Y) *
       ((\<Sum>i<length Y. - ln (p ! i ! nat (Y ! i))) +
        regularization / 2 * (sum_of_squares hw + sum_of_squares ow)))"
proof -
  have pm: "p = mat (length Y) c (\<lambda>i j. p ! i ! j)" by (rule mat_of_shape[OF sh])
  have g: "getitem_range (Mat p) (length Y) Y = Inr (Vec (map (\<lambda>i. p ! i ! nat (Y ! i)) [0..<length Y]))"
    using getitem_range_mat[OF n le_refl Y, of "\<lambda>i j. p ! i ! j"] pm by simp
  show ?thesis
    using hw ow p g n
    by (simp add: cross_entropy_def getitem_def andthen_def Let_def np_neg_def np_log_def
        np_map.simps np_sum_square sum_list_upt o_def)
qed

theorem cross_entropy_value_witness:
  "[''HW'' \<mapsto> Mat [[1, 2]], ''OW'' \<mapsto> Mat [[3], [4]]] ''HW'' = Some (Mat [[1, 2]]) \<and>
   [''HW'' \<mapsto> Mat [[1, 2]], ''OW'' \<mapsto> Mat [[3], [4]]] ''OW'' = Some (Mat [[3], [4]]) \<and>
   (\<lambda>m x. Inr (Mat [[1 / 4, 3 / 4]])) [''HW'' \<mapsto> Mat [[1, 2]], ''OW'' \<mapsto> Mat [[3], [4]]] (Mat [[5]])
     = Inr (Mat [[1 / 4, 3 / 4]]) \<and>
   has_shape [[1 / 4, 3 / 4]] (length [1::int]) 2 \<and> valid_labels [1] (length [1::int]) 2 \<and>
   0 < length [1::int] \<and>
   cross_entropy (\<lambda>m x. Inr (Mat [[1 / 4, 3 / 4]]))
       [''HW'' \<mapsto> Mat [[1, 2]], ''OW'' \<mapsto> Mat [[3], [4]]] (Mat [[5]]) [1] (1 / 100) =
     Inr (1 / real (length [1::int]) *
       ((\<Sum>i<length [1::int]. - ln ([[1 / 4, 3 / 4]] ! i ! nat ([1] ! i))) +
        (1 / 100) / 2 * (sum_of_squares (Mat [[1, 2]]) + sum_of_squares (Mat [[3], [4]]))))"
proof -
  have a: "[''HW'' \<mapsto> Mat [[1, 2]], ''OW'' \<mapsto> Mat [[3], [4]]] ''HW'' = Some (Mat [[1, 2]])"
    and b: "[''HW'' \<mapsto> Mat [[1, 2]], ''OW'' \<mapsto> Mat [[3], [4]]] ''OW'' = Some (Mat [[3], [4]])"
    and c: "(\<lambda>m x. Inr (Mat [[1 / 4, 3 / 4]])) [''HW'' \<mapsto> Mat [[1, 2]], ''OW'' \<mapsto> Mat [[3], [4]]] (Mat [[5]])
     = (Inr (Mat [[1 / 4, 3 / 4]]) :: error + ndarray)"
    and d: "has_shape [[1 / 4, 3 / 4]] (length [1::int]) 2"
    and e: "valid_labels [1] (length [1::int]) 2" and f: "0 < length [1::int]"
    by (simp_all add: has_shape_def valid_labels_def)
  note r = cross_entropy_value[where predict = "\<lambda>m x. Inr (Mat [[1 / 4, 3 / 4]])"
        and X = "Mat [[5]]" and regularization = "1 / 100", OF a b _ d e f]
  show ?thesis
    using a b d e f r[OF refl] by blast
qed

section \<open>Errors are not caught\<close>







section \<open>The cells of the notebook depend on one another\<close>

lemma call_cell_after_earlier_cells:
  "\<exists>ns1 ns2 ns3 ns4.
     run_cell (cell_imports intro_utils) builtins = Inr ns1 \<and>
     run_cell cell_cost ns1 = Inr ns2 \<and>
     run_cell cell_build_model ns2 = Inr ns3 \<and>
     run_cell cell_call ns3 = Inr ns4"
  by (simp add: cell_imports_def cell_cost_def cell_build_model_def cell_call_def builtins_def
      andthen_def)

text \<open>
  C7 (as stated, refuted). The cell that calls \<open>build_model\<close> is not independent of the
  other cells: evaluated in a kernel that has only the built-in names, it raises
  \<^verbatim>\<open>NameError\<close>, because \<^verbatim>\<open>make_moons\<close> and \<^verbatim>\<open>build_model\<close> are bound by earlier cells.
\<close>

theorem call_cell_alone_fails: "run_cell cell_call builtins = Inl NameError"
  by (simp add: cell_call_def builtins_def andthen_def)

text \<open>
  C7 (amended). The code cells of the linear-algebra notebook are evaluated in order in
  one kernel: whatever names \<^verbatim>\<open>intro_utils\<close> exports, every cell finds the names its
  top-level statements read bound once the cells before it have run, and the cell that
  calls \<open>build_model\<close> needs names that earlier cells bind.
\<close>

theorem cells_run_in_order:
  "(\<exists>ns. run_cells (notebook intro_utils) builtins = Inr ns) \<and>
   (\<exists>ns1 ns2 ns3 ns4.
     run_cell (cell_imports intro_utils) builtins = Inr ns1 \<and>
     run_cell cell_cost ns1 = Inr ns2 \<and>
     run_cell cell_build_model ns2 = Inr ns3 \<and>
     run_cell cell_call ns3 = Inr ns4 \<and>
     ''make_moons'' \<in> set ns1 \<and> ''build_model'' \<in> set ns3 \<and>
     ''make_moons'' \<notin> set builtins \<and> ''build_model'' \<notin> set builtins)"
  by (simp add: notebook_def cell_imports_def cell_cost_def cell_build_model_def cell_call_def
      builtins_def andthen_def)

theorem cells_run_in_order_witness:
  "(\<exists>ns. run_cells (notebook [''extract_data'', ''predict'']) builtins = Inr ns) \<and>
   (\<exists>ns1 ns2 ns3 ns4.
     run_cell (cell_imports [''extract_data'', ''predict'']) builtins = Inr ns1 \<and>
     run_cell cell_cost ns1 = Inr ns2 \<and>
     run_cell cell_build_model ns2 = Inr ns3 \<and>
     run_cell cell_call ns3 = Inr ns4 \<and>
     ''make_moons'' \<in> set ns1 \<and> ''build_model'' \<in> set ns3)"
  using cells_run_in_order[of "[''extract_data'', ''predict'']"] by blast

end
